theory Spec2Isabelle
  imports Complex_Main "HOL-Library.AList"
begin

section \<open>Bitmap surfaces\<close>

text \<open>
  A canvas is modelled by what it shows: nothing yet (a canvas just created), the
  finished raster of a page, or the unfinished raster of a page whose rendering failed
  after the canvas had been sized. Pixel sizes and CSS sizes are left out.
\<close>

datatype canvas = Blank | Rendered int | Failed int

section \<open>The transition engine (WebGLUtils)\<close>

text \<open>
  The engine compiles one of three fragment programs, uploads two page images as
  textures and draws one full-surface quad per animation frame. The GLSL sources are
  string constants of the script; they are named here by a datatype and given their
  per-pixel meaning by \<open>fragColor\<close>. Shader floats are idealised as reals.
  \<open>Fragment f\<close> is the source text of the fragment program \<open>f\<close>, as it is
  handed to the compiler.
\<close>

datatype fragment_shader = FadeFragmentShader | SlideFragmentShader | ZoomFragmentShader

datatype shader_source = BasicVertexShader | Fragment fragment_shader

definition getBasicVertexShader :: shader_source where
  "getBasicVertexShader = BasicVertexShader"

definition getFadeFragmentShader :: fragment_shader where
  "getFadeFragmentShader = FadeFragmentShader"

definition getSlideFragmentShader :: fragment_shader where
  "getSlideFragmentShader = SlideFragmentShader"

definition getZoomFragmentShader :: fragment_shader where
  "getZoomFragmentShader = ZoomFragmentShader"

text \<open>The \<open>switch\<close> of \<open>getFragmentShaderForTransition\<close>, with its \<open>default\<close> branch.\<close>

definition getFragmentShaderForTransition :: "string \<Rightarrow> fragment_shader" where
  "getFragmentShaderForTransition transitionType =
     (if transitionType = ''fade'' then getFadeFragmentShader
      else if transitionType = ''slide'' then getSlideFragmentShader
      else if transitionType = ''zoom'' then getZoomFragmentShader
      else getFadeFragmentShader)"

type_synonym vec2 = "real \<times> real"
type_synonym vec4 = "real \<times> real \<times> real \<times> real"
type_synonym sampler2D = "vec2 \<Rightarrow> vec4"

text \<open>GLSL built-ins used by the fragment programs.\<close>

definition mix :: "vec4 \<Rightarrow> vec4 \<Rightarrow> real \<Rightarrow> vec4" where
  "mix x y a =
     (case x of (x1, x2, x3, x4) \<Rightarrow> case y of (y1, y2, y3, y4) \<Rightarrow>
        (x1 * (1 - a) + y1 * a, x2 * (1 - a) + y2 * a,
         x3 * (1 - a) + y3 * a, x4 * (1 - a) + y4 * a))"

definition clamp :: "real \<Rightarrow> real \<Rightarrow> real \<Rightarrow> real" where
  "clamp x lo hi = min (max x lo) hi"

definition smoothstep :: "real \<Rightarrow> real \<Rightarrow> real \<Rightarrow> real" where
  "smoothstep e0 e1 x =
     (let t = clamp ((x - e0) / (e1 - e0)) 0 1 in t * t * (3 - 2 * t))"

text \<open>
  \<open>main\<close> of each fragment program: the colour written for the pixel at texture
  coordinate \<open>v_texCoord\<close>, from the two bound textures and the two uniforms.
\<close>

fun fragColor :: "fragment_shader \<Rightarrow> sampler2D \<Rightarrow> sampler2D \<Rightarrow> real \<Rightarrow> real \<Rightarrow> vec2 \<Rightarrow> vec4" where
  "fragColor FadeFragmentShader u_texture1 u_texture2 u_progress u_direction v_texCoord =
     mix (u_texture1 v_texCoord) (u_texture2 v_texCoord) u_progress"
| "fragColor SlideFragmentShader u_texture1 u_texture2 u_progress u_direction v_texCoord =
     (let coord1 = (fst v_texCoord + (- u_progress * u_direction), snd v_texCoord + 0);
          coord2 = (fst v_texCoord + (1 - u_progress) * u_direction, snd v_texCoord + 0)
      in if u_direction > 0
         then (if fst v_texCoord < u_progress then u_texture2 coord2 else u_texture1 coord1)
         else (if fst v_texCoord > 1 - u_progress then u_texture2 coord2 else u_texture1 coord1))"
| "fragColor ZoomFragmentShader u_texture1 u_texture2 u_progress u_direction v_texCoord =
     (let scale = 1 + u_progress * (1 / 2) * u_direction;
          coord1 = (1 / 2 + (fst v_texCoord - 1 / 2) * scale,
                    1 / 2 + (snd v_texCoord - 1 / 2) * scale);
          alpha = smoothstep (1 / 2) 1 u_progress
      in mix (u_texture1 coord1) (u_texture2 v_texCoord) alpha)"

text \<open>
  The graphics driver answers compilation and linking; the script only reads
  \<open>COMPILE_STATUS\<close> and \<open>LINK_STATUS\<close>. The field \<open>gl\<close> of a \<open>WebGLUtils\<close> is
  \<open>None\<close> when \<open>initGL\<close> found no WebGL context (it logs and returns, leaving
  \<open>this.gl = null\<close>). Every call \<open>this.gl.f(...)\<close> on a null \<open>gl\<close> throws a
  \<open>TypeError\<close>; with a context, the WebGL calls of the script report errors through
  status flags and do not throw.
\<close>

record driver =
  compileStatus :: "shader_source \<Rightarrow> bool"
  linkStatus :: "shader_source \<Rightarrow> shader_source \<Rightarrow> bool"

datatype error = TypeError

type_synonym program = "shader_source \<times> shader_source"

definition createShader :: "driver option \<Rightarrow> shader_source \<Rightarrow> error + shader_source option" where
  "createShader gl source =
     (case gl of
        None \<Rightarrow> Inl TypeError
      | Some d \<Rightarrow> if \<not> compileStatus d source then Inr None else Inr (Some source))"

definition createProgram :: "driver option \<Rightarrow> shader_source \<Rightarrow> shader_source \<Rightarrow> error + program option" where
  "createProgram gl vertexShaderSource fragmentShaderSource =
     (case createShader gl vertexShaderSource of
        Inl e \<Rightarrow> Inl e
      | Inr vertexShader \<Rightarrow>
          (case createShader gl fragmentShaderSource of
             Inl e \<Rightarrow> Inl e
           | Inr fragmentShader \<Rightarrow>
               (case (vertexShader, fragmentShader) of
                  (Some v, Some f) \<Rightarrow>
                    (case gl of
                       None \<Rightarrow> Inl TypeError
                     | Some d \<Rightarrow> if \<not> linkStatus d v f then Inr None else Inr (Some (v, f)))
                | _ \<Rightarrow> Inr None)))"

text \<open>
  JavaScript numbers as far as the animation loop needs them: \<open>elapsed\<close> is a
  difference of two \<open>Date.now()\<close> readings, an integer number of milliseconds, and
  \<open>duration\<close> is an integer number of milliseconds. Their quotient is a finite number,
  an infinity or \<open>NaN\<close> (IEEE 754: \<open>0/0\<close> is \<open>NaN\<close>, \<open>x/0\<close> is an infinity of the
  sign of \<open>x\<close>). Finite quotients are idealised as reals.
\<close>

datatype jsnum = NaN | NegInfinity | Num real | Infinity

definition js_div :: "int \<Rightarrow> int \<Rightarrow> jsnum" where
  "js_div a b =
     (if b = 0 then (if a = 0 then NaN else if 0 < a then Infinity else NegInfinity)
      else Num (real_of_int a / real_of_int b))"

text \<open>\<open>Math.min(x, 1.0)\<close>: \<open>NaN\<close> if \<open>x\<close> is \<open>NaN\<close>.\<close>

definition Math_min_1 :: "jsnum \<Rightarrow> jsnum" where
  "Math_min_1 x =
     (case x of NaN \<Rightarrow> NaN | NegInfinity \<Rightarrow> NegInfinity
      | Num r \<Rightarrow> Num (min r 1) | Infinity \<Rightarrow> Num 1)"

text \<open>\<open>x < 1.0\<close>: false if \<open>x\<close> is \<open>NaN\<close>.\<close>

definition js_less_1 :: "jsnum \<Rightarrow> bool" where
  "js_less_1 x =
     (case x of NaN \<Rightarrow> False | NegInfinity \<Rightarrow> True | Num r \<Rightarrow> r < 1 | Infinity \<Rightarrow> False)"

text \<open>
  What a caller of \<open>performTransition\<close> observes: the promise rejected (the executor
  threw), resolved after drawing frames with the listed values of \<open>u_progress\<close>, or
  still pending after the frames drawn so far, with one more frame requested. The two
  images only fill the textures, so the outcome does not depend on them.
\<close>

datatype outcome = Rejected error | Resolved "jsnum list" | Pending "jsnum list"

text \<open>
  The closure \<open>animate\<close>. The second argument lists the values of
  \<open>Date.now() - startTime\<close> read by the successive calls: the first call is made by
  \<open>performTransition\<close> itself, each later one by the frame scheduler. When the
  readings given are used up and the last frame had \<open>progress < 1\<close>, the promise is
  pending.
\<close>

fun animate :: "int \<Rightarrow> int list \<Rightarrow> jsnum list \<Rightarrow> outcome" where
  "animate duration [] frames = Pending frames"
| "animate duration (elapsed # later) frames =
     (let progress = Math_min_1 (js_div elapsed duration) in
      if js_less_1 progress then animate duration later (frames @ [progress])
      else Resolved (frames @ [progress]))"

definition performTransition ::
  "driver option \<Rightarrow> canvas \<Rightarrow> canvas \<Rightarrow> string \<Rightarrow> int \<Rightarrow> real \<Rightarrow> int list \<Rightarrow> outcome" where
  "performTransition gl fromImage toImage transitionType duration direction clock =
     (case createProgram gl getBasicVertexShader
             (Fragment (getFragmentShaderForTransition transitionType)) of
        Inl e \<Rightarrow> Rejected e
      | Inr None \<Rightarrow> Resolved []
      | Inr (Some prog) \<Rightarrow> animate duration clock [])"

section \<open>The viewer (PDFTransitionsApp with its PDFHandler)\<close>

text \<open>
  How a call of \<open>PDFHandler.renderPage\<close> that started rendering ends: normally, or in
  its \<open>catch\<close> branch because \<open>getPage\<close> rejected (the canvas is untouched) or
  because \<open>page.render\<close> rejected (the canvas has been resized). In both failing cases
  the call returns \<open>null\<close>; it never throws. What the canvas of a call shows is
  updated when the call ends.
\<close>

datatype raster_outcome = Success | GetPageError | RenderError

fun rasterResult :: "raster_outcome \<Rightarrow> int \<Rightarrow> canvas \<Rightarrow> canvas" where
  "rasterResult Success pageNumber c = Rendered pageNumber"
| "rasterResult GetPageError pageNumber c = c"
| "rasterResult RenderError pageNumber c = Failed pageNumber"

text \<open>
  The asynchronous functions are suspended at their \<open>await\<close>s. The one call of
  \<open>PDFHandler.renderPage\<close> that is rendering (the handler's flag \<open>rendering\<close> lets no
  second one start) is awaited by one of:
  \<^item> \<open>prerenderAdjacentPages\<close> at its first \<open>await\<close> (next page),
  \<^item> \<open>prerenderAdjacentPages\<close> at its second \<open>await\<close> (previous page),
  \<^item> \<open>renderPageWithTransition\<close>, which keeps its snapshot \<open>oldCanvas\<close>,
  \<^item> the \<open>then\<close> handler of \<open>renderPage\<close>, drawing on \<open>pdfCanvas\<close>.
\<close>

datatype awaiter = PrerenderNext | PrerenderPrev | TransitionNew canvas | PlainPage

text \<open>
  What the viewer does to its surroundings, in order: a call of
  \<open>PDFHandler.renderPage\<close> (with the page number passed and the value of
  \<open>totalPages\<close> at the call), the start of an animation between two canvases, the copy
  of a canvas to \<open>pdfCanvas\<close> after a transition, and the \<open>catch\<close> branch of
  \<open>renderPageWithTransition\<close>.
\<close>

datatype effect =
    Rasterize awaiter int int
  | AnimationStart canvas canvas
  | Commit canvas
  | TransitionError

record app =
  currentPage :: int
  totalPages :: int
  pdfDoc :: bool
  currentTransition :: string
  webglUtils :: "driver option option"
  isTransitioning :: bool
  pageCache :: "(int \<times> canvas) list"
  isPrerendering :: bool
  pdfCanvas :: canvas
  raster :: "(int \<times> awaiter) option"
  animation :: "(canvas \<times> canvas) option"
  scaling :: nat
  trace :: "effect list"

text \<open>
  \<open>pdfDoc\<close> is \<open>pdfHandler.isPDFLoaded()\<close>. \<open>webglUtils\<close> is \<open>None\<close> when the
  constructor of \<open>WebGLUtils\<close> threw in \<open>initWebGL\<close>, and otherwise holds the
  engine's \<open>gl\<close>. \<open>pageCache\<close> is the \<open>Map\<close> in insertion order. \<open>raster\<close> is the
  call of \<open>PDFHandler.renderPage\<close> in progress, with its page number and awaiter;
  \<open>pdfHandler.rendering\<close> is true exactly when there is one. \<open>animation\<close> is the
  pending \<open>performTransition\<close> with its two canvases. \<open>scaling\<close> counts the calls of
  \<open>renderPage\<close> suspended in \<open>calculateOptimalScale\<close>.
\<close>

definition constructor :: "driver option option \<Rightarrow> app" where
  "constructor w =
     \<lparr>currentPage = 1, totalPages = 0, pdfDoc = False, currentTransition = ''fade'',
      webglUtils = w, isTransitioning = False, pageCache = [], isPrerendering = False,
      pdfCanvas = Blank, raster = None, animation = None, scaling = 0, trace = []\<rparr>"

definition emit :: "effect \<Rightarrow> app \<Rightarrow> app" where
  "emit x s = s\<lparr>trace := trace s @ [x]\<rparr>"

text \<open>
  \<open>PDFHandler.renderPage\<close> returns \<open>null\<close> at once, leaving the canvas as it is,
  when no document is loaded or when a page is being rendered.
\<close>

definition rendering :: "app \<Rightarrow> bool" where
  "rendering s = (raster s \<noteq> None)"

definition returnsNullAtOnce :: "app \<Rightarrow> bool" where
  "returnsNullAtOnce s = (\<not> pdfDoc s \<or> rendering s)"

subsection \<open>The page cache\<close>

definition has :: "(int \<times> canvas) list \<Rightarrow> int \<Rightarrow> bool" where
  "has cache k = (map_of cache k \<noteq> None)"

text \<open>
  \<open>cleanupCache\<close>: the loop over \<open>pageCache.keys()\<close> deletes each key that is not in
  \<open>pagesToKeep\<close>.
\<close>

definition pagesToKeep :: "app \<Rightarrow> int set" where
  "pagesToKeep s = {currentPage s - 1, currentPage s, currentPage s + 1}"

definition cleanupCache :: "app \<Rightarrow> app" where
  "cleanupCache s =
     s\<lparr>pageCache :=
          fold (\<lambda>pageNum cache. if pageNum \<notin> pagesToKeep s then AList.delete pageNum cache else cache)
               (map fst (pageCache s)) (pageCache s)\<rparr>"

text \<open>
  \<open>prerenderAdjacentPages\<close> (app.js, lines 224 to 261), cut at its two \<open>await\<close>s:
  \<open>prerender_next\<close> is lines 232 to 241, \<open>prerender_prev\<close> lines 243 to 252 and
  \<open>prerender_finish\<close> lines 254 to 260. Each part runs to the next
  suspension; a call of \<open>PDFHandler.renderPage\<close> that returns \<open>null\<close> at once does
  not suspend it, and the canvas just created is stored as it is. As
  \<open>PDFHandler.renderPage\<close> never throws, the \<open>catch\<close> branch is not entered, and the
  \<open>finally\<close> block follows the cleanup pass.
\<close>

definition prerender_finish :: "app \<Rightarrow> app" where
  "prerender_finish s = (cleanupCache s)\<lparr>isPrerendering := False\<rparr>"

definition prerender_prev :: "app \<Rightarrow> app" where
  "prerender_prev s =
     (if currentPage s > 1 \<and> \<not> has (pageCache s) (currentPage s - 1)
      then (let prevPage = currentPage s - 1;
                s1 = emit (Rasterize PrerenderPrev prevPage (totalPages s)) s
            in if returnsNullAtOnce s1
               then prerender_finish (s1\<lparr>pageCache := AList.update prevPage Blank (pageCache s1)\<rparr>)
               else s1\<lparr>raster := Some (prevPage, PrerenderPrev)\<rparr>)
      else prerender_finish s)"

definition prerender_next :: "app \<Rightarrow> app" where
  "prerender_next s =
     (if currentPage s < totalPages s \<and> \<not> has (pageCache s) (currentPage s + 1)
      then (let nextPage = currentPage s + 1;
                s1 = emit (Rasterize PrerenderNext nextPage (totalPages s)) s
            in if returnsNullAtOnce s1
               then prerender_prev (s1\<lparr>pageCache := AList.update nextPage Blank (pageCache s1)\<rparr>)
               else s1\<lparr>raster := Some (nextPage, PrerenderNext)\<rparr>)
      else prerender_prev s)"

definition prerenderAdjacentPages :: "app \<Rightarrow> app" where
  "prerenderAdjacentPages s =
     (if isPrerendering s \<or> \<not> pdfDoc s then s
      else prerender_next (s\<lparr>isPrerendering := True\<rparr>))"

subsection \<open>Plain rendering\<close>

text \<open>
  \<open>renderPage\<close> (lines 161 to 189) suspends in \<open>calculateOptimalScale\<close>; its
  \<open>then\<close> handler, \<open>renderPage_scaled\<close>, calls \<open>PDFHandler.renderPage\<close> with the
  value of \<open>currentPage\<close> at that later time. The handler of the result (lines 174 to
  184) is the case \<open>PlainPage\<close> of \<open>raster_done\<close> below.
\<close>

definition renderPage :: "app \<Rightarrow> app" where
  "renderPage s = (if \<not> pdfDoc s then s else s\<lparr>scaling := Suc (scaling s)\<rparr>)"

definition renderPage_scaled :: "bool \<Rightarrow> app \<Rightarrow> app" where
  "renderPage_scaled ok s =
     (if scaling s = 0 then s
      else (let s1 = s\<lparr>scaling := scaling s - 1\<rparr> in
            if \<not> ok then s1
            else (let s2 = emit (Rasterize PlainPage (currentPage s1) (totalPages s1)) s1 in
                  if returnsNullAtOnce s2 then s2
                  else s2\<lparr>raster := Some (currentPage s2, PlainPage)\<rparr>)))"

subsection \<open>Rendering with a transition\<close>

text \<open>
  Lines 330 to 343 and the \<open>finally\<close> block: the new canvas is copied to
  \<open>pdfCanvas\<close>, prefetch is started (not awaited) and the flag is reset.
\<close>

definition transition_commit :: "canvas \<Rightarrow> app \<Rightarrow> app" where
  "transition_commit newCanvas s =
     (prerenderAdjacentPages (emit (Commit newCanvas) (s\<lparr>pdfCanvas := newCanvas\<rparr>)))
       \<lparr>isTransitioning := False\<rparr>"

text \<open>The \<open>catch\<close> branch followed by the \<open>finally\<close> block.\<close>

definition transition_catch :: "app \<Rightarrow> app" where
  "transition_catch s = (renderPage (emit TransitionError s))\<lparr>isTransitioning := False\<rparr>"

text \<open>
  Lines 315 to 328, once \<open>newCanvas\<close> is known. \<open>webglUtils.resize\<close> calls
  \<open>this.gl.viewport\<close> and throws when \<open>gl\<close> is null. \<open>performTransition\<close> is
  called with the duration 800; it resolves at once when no program could be created
  and otherwise animates, which suspends the function until the promise resolves.
\<close>

definition transition_run :: "canvas \<Rightarrow> canvas \<Rightarrow> app \<Rightarrow> app" where
  "transition_run oldCanvas newCanvas s =
     (case webglUtils s of
        None \<Rightarrow> transition_catch s
      | Some None \<Rightarrow> transition_catch s
      | Some (Some d) \<Rightarrow>
          (case createProgram (Some d) getBasicVertexShader
                  (Fragment (getFragmentShaderForTransition (currentTransition s))) of
             Inl e \<Rightarrow> transition_catch s
           | Inr None \<Rightarrow> transition_commit newCanvas s
           | Inr (Some prog) \<Rightarrow>
               (emit (AnimationStart oldCanvas newCanvas) s)
                 \<lparr>animation := Some (oldCanvas, newCanvas)\<rparr>))"

text \<open>
  \<open>renderPageWithTransition\<close> (lines 279 to 352) up to its first suspension: the
  two guards, the snapshot of \<open>pdfCanvas\<close> and the lookup of the new page in the cache
  (lines 280 to 313). \<open>updatePageInfo\<close> only writes to the page.
\<close>

definition renderPageWithTransition :: "app \<Rightarrow> app" where
  "renderPageWithTransition s =
     (if \<not> pdfDoc s \<or> webglUtils s = None then renderPage s
      else if isTransitioning s then s
      else (let s1 = s\<lparr>isTransitioning := True\<rparr>;
                oldCanvas = pdfCanvas s1
            in case map_of (pageCache s1) (currentPage s1) of
                 Some newCanvas \<Rightarrow> transition_run oldCanvas newCanvas s1
               | None \<Rightarrow>
                   (let s2 = emit (Rasterize (TransitionNew oldCanvas) (currentPage s1) (totalPages s1)) s1 in
                    if returnsNullAtOnce s2 then transition_run oldCanvas Blank s2
                    else s2\<lparr>raster := Some (currentPage s2, TransitionNew oldCanvas)\<rparr>)))"

subsection \<open>Navigation and loading\<close>

definition goToPreviousPage :: "app \<Rightarrow> app" where
  "goToPreviousPage s =
     (if currentPage s > 1 \<and> \<not> isTransitioning s
      then renderPageWithTransition (s\<lparr>currentPage := currentPage s - 1\<rparr>)
      else s)"

definition goToNextPage :: "app \<Rightarrow> app" where
  "goToNextPage s =
     (if currentPage s < totalPages s \<and> \<not> isTransitioning s
      then renderPageWithTransition (s\<lparr>currentPage := currentPage s + 1\<rparr>)
      else s)"

text \<open>
  The \<open>then\<close> handler of \<open>handlePDFUpload\<close> for a document that loaded, with its
  number of pages.
\<close>

definition handlePDFUpload :: "int \<Rightarrow> app \<Rightarrow> app" where
  "handlePDFUpload numPages s =
     renderPage (s\<lparr>pdfDoc := True, totalPages := numPages, currentPage := 1\<rparr>)"

subsection \<open>The event loop\<close>

text \<open>
  Each event is one turn of the browser's event loop: a user action or the completion
  of what a suspended function awaits. A turn runs to the next suspension without
  interleaving; an \<open>await\<close> of a promise that is already resolved continues within
  the turn, before any other event. The call of \<open>PDFHandler.renderPage\<close> in progress ends with
  \<open>RasterDone\<close>, which resumes its awaiter; \<open>AnimDone\<close> is the resolution of the
  pending \<open>performTransition\<close>; \<open>ScaleDone\<close> ends one \<open>calculateOptimalScale\<close>
  (\<open>False\<close>: it rejected, and the \<open>then\<close> handler is skipped). \<open>Loaded\<close> is the
  end of a successful \<open>loadPDF\<close>, \<open>FullscreenChange\<close> the timer set by the
  fullscreen handler, \<open>SelectTransition\<close> a change of the transition selector.
\<close>

datatype event =
    Loaded int
  | Next
  | Prev
  | SelectTransition string
  | FullscreenChange
  | ScaleDone bool
  | RasterDone raster_outcome
  | AnimDone

definition raster_done :: "raster_outcome \<Rightarrow> app \<Rightarrow> app" where
  "raster_done out s =
     (case raster s of
        None \<Rightarrow> s
      | Some (pageNumber, PrerenderNext) \<Rightarrow>
          prerender_prev
            (s\<lparr>raster := None,
               pageCache := AList.update pageNumber (rasterResult out pageNumber Blank) (pageCache s)\<rparr>)
      | Some (pageNumber, PrerenderPrev) \<Rightarrow>
          prerender_finish
            (s\<lparr>raster := None,
               pageCache := AList.update pageNumber (rasterResult out pageNumber Blank) (pageCache s)\<rparr>)
      | Some (pageNumber, TransitionNew oldCanvas) \<Rightarrow>
          transition_run oldCanvas (rasterResult out pageNumber Blank) (s\<lparr>raster := None\<rparr>)
      | Some (pageNumber, PlainPage) \<Rightarrow>
          (let s1 = s\<lparr>raster := None, pdfCanvas := rasterResult out pageNumber (pdfCanvas s)\<rparr> in
           if out = Success then prerenderAdjacentPages s1 else s1))"

definition anim_done :: "app \<Rightarrow> app" where
  "anim_done s =
     (case animation s of
        None \<Rightarrow> s
      | Some (oldCanvas, newCanvas) \<Rightarrow> transition_commit newCanvas (s\<lparr>animation := None\<rparr>))"

fun step :: "event \<Rightarrow> app \<Rightarrow> app" where
  "step (Loaded numPages) s = handlePDFUpload numPages s"
| "step Next s = goToNextPage s"
| "step Prev s = goToPreviousPage s"
| "step (SelectTransition t) s = s\<lparr>currentTransition := t\<rparr>"
| "step FullscreenChange s = renderPage s"
| "step (ScaleDone ok) s = renderPage_scaled ok s"
| "step (RasterDone out) s = raster_done out s"
| "step AnimDone s = anim_done s"

fun run :: "event list \<Rightarrow> app \<Rightarrow> app" where
  "run [] s = s"
| "run (e # es) s = run es (step e s)"

text \<open>A loaded document has at least one page.\<close>

fun valid_event :: "event \<Rightarrow> bool" where
  "valid_event (Loaded numPages) = (1 \<le> numPages)"
| "valid_event e = True"

section \<open>Reachable states and what is observed of a run\<close>

text \<open>
  A request for rasterization is in range when the page number passed lies within the
  document as it was when the call was made.
\<close>

fun request_ok :: "effect \<Rightarrow> bool" where
  "request_ok (Rasterize w pageNumber numPages) = (1 \<le> pageNumber \<and> pageNumber \<le> numPages)"
| "request_ok x = True"

text \<open>The page numbers passed to \<open>PDFHandler.renderPage\<close>, in order.\<close>

fun requests :: "effect list \<Rightarrow> int list" where
  "requests [] = []"
| "requests (Rasterize w pageNumber numPages # xs) = pageNumber # requests xs"
| "requests (x # xs) = requests xs"

text \<open>What the transitions did: everything but the requests for rasterization.\<close>

fun transitions :: "effect list \<Rightarrow> effect list" where
  "transitions [] = []"
| "transitions (Rasterize w pageNumber numPages # xs) = transitions xs"
| "transitions (x # xs) = x # transitions xs"

fun isTransitionNew :: "awaiter \<Rightarrow> bool" where
  "isTransitionNew (TransitionNew oldCanvas) = True"
| "isTransitionNew w = False"

fun isPrerender :: "awaiter \<Rightarrow> bool" where
  "isPrerender PrerenderNext = True"
| "isPrerender PrerenderPrev = True"
| "isPrerender w = False"

definition awaitedBy :: "(awaiter \<Rightarrow> bool) \<Rightarrow> app \<Rightarrow> bool" where
  "awaitedBy P s = (case raster s of None \<Rightarrow> False | Some (p, w) \<Rightarrow> P w)"

text \<open>
  An invocation of \<open>renderPageWithTransition\<close> is suspended: at line 312, awaiting
  the raster of the new page, or at line 323, awaiting the animation.
\<close>

definition transitionPending :: "app \<Rightarrow> bool" where
  "transitionPending s = (animation s \<noteq> None \<or> awaitedBy isTransitionNew s)"

definition inv_pages :: "app \<Rightarrow> bool" where
  "inv_pages s =
     ((pdfDoc s \<longrightarrow> 1 \<le> currentPage s \<and> currentPage s \<le> totalPages s) \<and>
      (\<not> pdfDoc s \<longrightarrow> scaling s = 0 \<and> raster s = None) \<and>
      list_all request_ok (trace s))"

definition inv_flag :: "app \<Rightarrow> bool" where
  "inv_flag s =
     ((isTransitioning s = transitionPending s) \<and>
      (animation s \<noteq> None \<longrightarrow> \<not> awaitedBy isTransitionNew s))"

definition inv_cache :: "app \<Rightarrow> bool" where
  "inv_cache s =
     ((isPrerendering s = awaitedBy isPrerender s) \<and>
      distinct (map fst (pageCache s)) \<and>
      (\<not> isPrerendering s \<longrightarrow> length (pageCache s) \<le> 3))"

definition inv :: "app \<Rightarrow> bool" where
  "inv s = (inv_pages s \<and> inv_flag s \<and> inv_cache s)"

text \<open>A navigation request.\<close>

fun navigation :: "event \<Rightarrow> bool" where
  "navigation Next = True"
| "navigation Prev = True"
| "navigation e = False"

text \<open>
  The pages a prefetch is to rasterize, in the words of the specification: the next and
  the previous page, without those outside the document and those already cached.
\<close>

definition prefetchTargets :: "app \<Rightarrow> int list" where
  "prefetchTargets s =
     filter (\<lambda>p. 1 \<le> p \<and> p \<le> totalPages s \<and> \<not> has (pageCache s) p)
       [currentPage s + 1, currentPage s - 1]"

text \<open>The midpoint of two colours, component by component.\<close>

definition midpoint4 :: "vec4 \<Rightarrow> vec4 \<Rightarrow> vec4" where
  "midpoint4 x y =
     (case x of (x1, x2, x3, x4) \<Rightarrow> case y of (y1, y2, y3, y4) \<Rightarrow>
        ((x1 + y1) / 2, (x2 + y2) / 2, (x3 + y3) / 2, (x4 + y4) / 2))"

text \<open>Two drivers for concrete runs: one compiles and links everything, one nothing.\<close>

definition okDriver :: driver where
  "okDriver = \<lparr>compileStatus = (\<lambda>source. True), linkStatus = (\<lambda>v f. True)\<rparr>"

definition brokenDriver :: driver where
  "brokenDriver = \<lparr>compileStatus = (\<lambda>source. False), linkStatus = (\<lambda>v f. False)\<rparr>"

text \<open>
  A viewer on page 3 of a document of five pages, with pages 1, 2 and 3 cached and
  nothing in flight.
\<close>

definition viewingPage3 :: app where
  "viewingPage3 =
     (constructor None)\<lparr>pdfDoc := True, totalPages := 5, currentPage := 3, pdfCanvas := Rendered 3,
        pageCache := [(1, Rendered 1), (2, Rendered 2), (3, Rendered 3)]\<rparr>"

section \<open>Lemmas\<close>

subsection \<open>The cleanup pass\<close>

lemma fold_delete_filter:
  "fold (\<lambda>k c. if k \<notin> K then AList.delete k c else c) ks cache
     = filter (\<lambda>p. fst p \<in> K \<or> fst p \<notin> set ks) cache"
proof (induction ks arbitrary: cache)
  case Nil
  then show ?case by simp
next
  case (Cons k ks)
  show ?case
    by (auto simp: Cons.IH AList.delete_eq intro!: filter_cong)
qed

lemma pageCache_cleanupCache:
  "pageCache (cleanupCache s) = filter (\<lambda>p. fst p \<in> pagesToKeep s) (pageCache s)"
  unfolding cleanupCache_def
  by (auto simp: fold_delete_filter intro!: filter_cong)

lemma cleanupCache_other [simp]:
  "currentPage (cleanupCache s) = currentPage s"
  "totalPages (cleanupCache s) = totalPages s"
  "pdfDoc (cleanupCache s) = pdfDoc s"
  "raster (cleanupCache s) = raster s"
  "trace (cleanupCache s) = trace s"
  "isPrerendering (cleanupCache s) = isPrerendering s"
  "isTransitioning (cleanupCache s) = isTransitioning s"
  "animation (cleanupCache s) = animation s"
  "scaling (cleanupCache s) = scaling s"
  "pdfCanvas (cleanupCache s) = pdfCanvas s"
  "webglUtils (cleanupCache s) = webglUtils s"
  "currentTransition (cleanupCache s) = currentTransition s"
  by (simp_all add: cleanupCache_def)

lemma cleanupCache_alt:
  "cleanupCache s = s\<lparr>pageCache := filter (\<lambda>p. fst p \<in> pagesToKeep s) (pageCache s)\<rparr>"
  using pageCache_cleanupCache[of s] by (simp add: cleanupCache_def)

lemma pagesToKeep_cleanup [simp]: "pagesToKeep (cleanupCache s) = pagesToKeep s"
  by (simp add: pagesToKeep_def)

lemma distinct_keys_window:
  assumes "distinct (map fst xs)" "fst ` set xs \<subseteq> {a, b, c}"
  shows "length xs \<le> 3"
proof -
  have "length xs = length (map fst xs)" by simp
  also have "\<dots> = card (set (map fst xs))" using distinct_card[OF assms(1)] by simp
  also have "\<dots> \<le> card {a, b, c}" using assms(2) by (intro card_mono) auto
  also have "\<dots> \<le> 3" by (simp add: card_insert_if)
  finally show ?thesis .
qed

lemma cleanup_bound:
  "distinct (map fst (pageCache s)) \<Longrightarrow>
   length (pageCache (cleanupCache s)) \<le> 3 \<and>
   fst ` set (pageCache (cleanupCache s)) \<subseteq> {currentPage s - 1, currentPage s, currentPage s + 1}"
  apply (rule conjI)
   apply (rule distinct_keys_window[where a="currentPage s - 1" and b="currentPage s" and c="currentPage s + 1"])
    apply (simp add: pageCache_cleanupCache distinct_map_filter)
   apply (auto simp: pageCache_cleanupCache pagesToKeep_def)
  done

subsection \<open>What prefetch leaves unchanged\<close>

lemma prerender_finish_frame [simp]:
  "currentPage (prerender_finish s) = currentPage s"
  "totalPages (prerender_finish s) = totalPages s"
  "pdfDoc (prerender_finish s) = pdfDoc s"
  "isTransitioning (prerender_finish s) = isTransitioning s"
  "animation (prerender_finish s) = animation s"
  "scaling (prerender_finish s) = scaling s"
  "pdfCanvas (prerender_finish s) = pdfCanvas s"
  "webglUtils (prerender_finish s) = webglUtils s"
  "currentTransition (prerender_finish s) = currentTransition s"
  "raster (prerender_finish s) = raster s"
  "trace (prerender_finish s) = trace s"
  "isPrerendering (prerender_finish s) = False"
  by (simp_all add: prerender_finish_def)

lemma prerender_prev_frame [simp]:
  "currentPage (prerender_prev s) = currentPage s"
  "totalPages (prerender_prev s) = totalPages s"
  "pdfDoc (prerender_prev s) = pdfDoc s"
  "isTransitioning (prerender_prev s) = isTransitioning s"
  "animation (prerender_prev s) = animation s"
  "scaling (prerender_prev s) = scaling s"
  "pdfCanvas (prerender_prev s) = pdfCanvas s"
  "webglUtils (prerender_prev s) = webglUtils s"
  "currentTransition (prerender_prev s) = currentTransition s"
  by (simp_all add: prerender_prev_def emit_def Let_def)

lemma prerender_next_frame [simp]:
  "currentPage (prerender_next s) = currentPage s"
  "totalPages (prerender_next s) = totalPages s"
  "pdfDoc (prerender_next s) = pdfDoc s"
  "isTransitioning (prerender_next s) = isTransitioning s"
  "animation (prerender_next s) = animation s"
  "scaling (prerender_next s) = scaling s"
  "pdfCanvas (prerender_next s) = pdfCanvas s"
  "webglUtils (prerender_next s) = webglUtils s"
  "currentTransition (prerender_next s) = currentTransition s"
  by (simp_all add: prerender_next_def emit_def Let_def)

lemma prerenderAdjacentPages_frame [simp]:
  "currentPage (prerenderAdjacentPages s) = currentPage s"
  "totalPages (prerenderAdjacentPages s) = totalPages s"
  "pdfDoc (prerenderAdjacentPages s) = pdfDoc s"
  "isTransitioning (prerenderAdjacentPages s) = isTransitioning s"
  "animation (prerenderAdjacentPages s) = animation s"
  "scaling (prerenderAdjacentPages s) = scaling s"
  "pdfCanvas (prerenderAdjacentPages s) = pdfCanvas s"
  "webglUtils (prerenderAdjacentPages s) = webglUtils s"
  "currentTransition (prerenderAdjacentPages s) = currentTransition s"
  by (simp_all add: prerenderAdjacentPages_def)

lemma awaitedBy_update [simp]:
  "awaitedBy P (s\<lparr>trace := t\<rparr>) = awaitedBy P s"
  "awaitedBy P (s\<lparr>pageCache := c\<rparr>) = awaitedBy P s"
  "awaitedBy P (s\<lparr>isPrerendering := b\<rparr>) = awaitedBy P s"
  "awaitedBy P (s\<lparr>isTransitioning := b\<rparr>) = awaitedBy P s"
  "awaitedBy P (s\<lparr>pdfCanvas := cv\<rparr>) = awaitedBy P s"
  "awaitedBy P (s\<lparr>animation := a\<rparr>) = awaitedBy P s"
  "awaitedBy P (s\<lparr>scaling := n\<rparr>) = awaitedBy P s"
  "awaitedBy P (s\<lparr>currentPage := k\<rparr>) = awaitedBy P s"
  "awaitedBy P (s\<lparr>totalPages := k\<rparr>) = awaitedBy P s"
  "awaitedBy P (s\<lparr>pdfDoc := b\<rparr>) = awaitedBy P s"
  "awaitedBy P (s\<lparr>currentTransition := ct\<rparr>) = awaitedBy P s"
  "awaitedBy P (s\<lparr>raster := None\<rparr>) = False"
  "awaitedBy P (s\<lparr>raster := Some (p, w)\<rparr>) = P w"
  by (simp_all add: awaitedBy_def)

lemma awaitedBy_None [simp]: "raster s = None \<Longrightarrow> awaitedBy P s = False"
  by (simp add: awaitedBy_def)

lemma awaitedBy_finish [simp]: "awaitedBy P (prerender_finish s) = awaitedBy P s"
  by (simp add: awaitedBy_def)

lemma awaitedBy_cleanup [simp]: "awaitedBy P (cleanupCache s) = awaitedBy P s"
  by (simp add: awaitedBy_def)

lemma awaitedBy_transition_prev [simp]:
  "awaitedBy isTransitionNew (prerender_prev s) = awaitedBy isTransitionNew s"
  apply (simp add: prerender_prev_def emit_def Let_def returnsNullAtOnce_def rendering_def)
  apply (auto simp: awaitedBy_def split: option.splits)
  done

lemma awaitedBy_transition_next [simp]:
  "awaitedBy isTransitionNew (prerender_next s) = awaitedBy isTransitionNew s"
  apply (simp add: prerender_next_def emit_def Let_def returnsNullAtOnce_def rendering_def)
  apply (auto simp: awaitedBy_def split: option.splits)
  done

lemma awaitedBy_transition_prerender [simp]:
  "awaitedBy isTransitionNew (prerenderAdjacentPages s) = awaitedBy isTransitionNew s"
  by (simp add: prerenderAdjacentPages_def)

subsection \<open>Pages stay within the document\<close>

lemma inv_pages_update [simp]:
  "inv_pages (s\<lparr>pageCache := c\<rparr>) = inv_pages s"
  "inv_pages (s\<lparr>isPrerendering := b\<rparr>) = inv_pages s"
  "inv_pages (s\<lparr>isTransitioning := b\<rparr>) = inv_pages s"
  "inv_pages (s\<lparr>pdfCanvas := cv\<rparr>) = inv_pages s"
  "inv_pages (s\<lparr>animation := a\<rparr>) = inv_pages s"
  "inv_pages (s\<lparr>currentTransition := ct\<rparr>) = inv_pages s"
  by (simp_all add: inv_pages_def)

lemma inv_pages_cleanup [simp]: "inv_pages (cleanupCache s) = inv_pages s"
  by (simp add: inv_pages_def)

lemma inv_pages_finish [simp]: "inv_pages (prerender_finish s) = inv_pages s"
  by (simp add: prerender_finish_def)

lemma inv_pages_prev: "inv_pages s \<Longrightarrow> pdfDoc s \<Longrightarrow> inv_pages (prerender_prev s)"
  by (simp add: prerender_prev_def emit_def Let_def) (simp add: inv_pages_def)

lemma inv_pages_next: "inv_pages s \<Longrightarrow> pdfDoc s \<Longrightarrow> inv_pages (prerender_next s)"
proof -
  assume a: "inv_pages s" "pdfDoc s"
  have b: "inv_pages (s\<lparr>trace := trace s @ [Rasterize PrerenderNext (currentPage s + 1) (totalPages s)]\<rparr>)"
    if "currentPage s < totalPages s"
    using a that by (simp add: inv_pages_def)
  show ?thesis
    using a b
    by (auto simp: prerender_next_def emit_def Let_def intro!: inv_pages_prev)
       (simp add: inv_pages_def)
qed

lemma inv_pages_prerender: "inv_pages s \<Longrightarrow> inv_pages (prerenderAdjacentPages s)"
  by (simp add: prerenderAdjacentPages_def inv_pages_next)

lemma inv_pages_renderPage: "inv_pages s \<Longrightarrow> inv_pages (renderPage s)"
  by (simp add: renderPage_def inv_pages_def)

lemma inv_pages_commit: "inv_pages s \<Longrightarrow> inv_pages (transition_commit c s)"
  unfolding transition_commit_def
  by (simp add: inv_pages_prerender emit_def) (rule inv_pages_prerender, simp add: inv_pages_def)

lemma inv_pages_catch: "inv_pages s \<Longrightarrow> inv_pages (transition_catch s)"
  unfolding transition_catch_def
  by simp (rule inv_pages_renderPage, simp add: inv_pages_def emit_def)

lemma inv_pages_run: "inv_pages s \<Longrightarrow> inv_pages (transition_run old new s)"
  unfolding transition_run_def
  by (auto simp: inv_pages_commit inv_pages_catch emit_def split: option.splits sum.splits)
     (simp add: inv_pages_def)

lemma inv_pages_rpwt:
  "inv_pages s \<Longrightarrow> inv_pages (renderPageWithTransition s)"
proof -
  assume a: "inv_pages s"
  have b: "inv_pages (s\<lparr>isTransitioning := True,
             trace := trace s @ [Rasterize (TransitionNew (pdfCanvas s)) (currentPage s) (totalPages s)]\<rparr>)"
    if "pdfDoc s"
    using a that by (simp add: inv_pages_def)
  have c: "inv_pages (s\<lparr>isTransitioning := True,
             trace := trace s @ [Rasterize (TransitionNew (pdfCanvas s)) (currentPage s) (totalPages s)],
             raster := Some (currentPage s, TransitionNew (pdfCanvas s))\<rparr>)"
    if "pdfDoc s"
    using a that by (simp add: inv_pages_def)
  show ?thesis
    using a b c
    by (auto simp: renderPageWithTransition_def Let_def emit_def inv_pages_renderPage inv_pages_run
             split: option.splits)
qed

lemma inv_pages_next_page: "inv_pages s \<Longrightarrow> inv_pages (goToNextPage s)"
  unfolding goToNextPage_def
  by (auto intro!: inv_pages_rpwt) (auto simp: inv_pages_def)

lemma inv_pages_prev_page: "inv_pages s \<Longrightarrow> inv_pages (goToPreviousPage s)"
  unfolding goToPreviousPage_def
  by (auto intro!: inv_pages_rpwt) (auto simp: inv_pages_def)

lemma inv_pages_upload: "inv_pages s \<Longrightarrow> 1 \<le> n \<Longrightarrow> inv_pages (handlePDFUpload n s)"
  unfolding handlePDFUpload_def
  by (rule inv_pages_renderPage) (simp add: inv_pages_def)

lemma inv_pages_scaled: "inv_pages s \<Longrightarrow> inv_pages (renderPage_scaled ok s)"
  by (auto simp: renderPage_scaled_def Let_def emit_def inv_pages_def)

lemma inv_pages_raster_done: "inv_pages s \<Longrightarrow> inv_pages (raster_done out s)"
proof (cases "raster s")
  case None
  then show "inv_pages s \<Longrightarrow> ?thesis" by (simp add: raster_done_def)
next
  case (Some pw)
  assume a: "inv_pages s"
  obtain p w where pw: "pw = (p, w)" by (cases pw)
  have doc: "pdfDoc s" using a Some by (auto simp: inv_pages_def)
  have b: "inv_pages (s\<lparr>raster := None\<rparr>)" using a by (simp add: inv_pages_def)
  show ?thesis
  proof (cases w)
    case PrerenderNext
    then show ?thesis using Some pw b doc
      by (simp add: raster_done_def inv_pages_prev)
  next
    case PrerenderPrev
    then show ?thesis using Some pw b
      by (simp add: raster_done_def)
  next
    case (TransitionNew old)
    then show ?thesis using Some pw b
      by (simp add: raster_done_def inv_pages_run)
  next
    case PlainPage
    then show ?thesis using Some pw b
      by (simp add: raster_done_def Let_def inv_pages_prerender)
  qed
qed

lemma inv_pages_anim_done: "inv_pages s \<Longrightarrow> inv_pages (anim_done s)"
  by (auto simp: anim_done_def inv_pages_commit split: option.splits)

lemma inv_pages_step: "inv_pages s \<Longrightarrow> valid_event e \<Longrightarrow> inv_pages (step e s)"
  by (cases e)
     (simp_all add: inv_pages_upload inv_pages_next_page inv_pages_prev_page inv_pages_renderPage
        inv_pages_scaled inv_pages_raster_done inv_pages_anim_done)

subsection \<open>The transition flag\<close>

lemma inv_flag_update [simp]:
  "inv_flag (s\<lparr>pageCache := c\<rparr>) = inv_flag s"
  "inv_flag (s\<lparr>isPrerendering := b\<rparr>) = inv_flag s"
  "inv_flag (s\<lparr>pdfCanvas := cv\<rparr>) = inv_flag s"
  "inv_flag (s\<lparr>trace := t\<rparr>) = inv_flag s"
  "inv_flag (s\<lparr>scaling := k\<rparr>) = inv_flag s"
  "inv_flag (s\<lparr>currentPage := n\<rparr>) = inv_flag s"
  "inv_flag (s\<lparr>totalPages := n\<rparr>) = inv_flag s"
  "inv_flag (s\<lparr>pdfDoc := b\<rparr>) = inv_flag s"
  "inv_flag (s\<lparr>currentTransition := ct\<rparr>) = inv_flag s"
  by (simp_all add: inv_flag_def transitionPending_def)

lemma inv_flag_prerender [simp]:
  "inv_flag (prerender_prev s) = inv_flag s"
  "inv_flag (prerender_next s) = inv_flag s"
  "inv_flag (prerender_finish s) = inv_flag s"
  "inv_flag (prerenderAdjacentPages s) = inv_flag s"
  by (simp_all add: inv_flag_def transitionPending_def)

lemma inv_flag_renderPage [simp]: "inv_flag (renderPage s) = inv_flag s"
  by (simp add: renderPage_def)

lemma inv_flag_idle:
  "animation s = None \<Longrightarrow> \<not> awaitedBy isTransitionNew s \<Longrightarrow> inv_flag (s\<lparr>isTransitioning := False\<rparr>)"
  by (simp add: inv_flag_def transitionPending_def)

lemma inv_flag_commit:
  "animation s = None \<Longrightarrow> \<not> awaitedBy isTransitionNew s \<Longrightarrow> inv_flag (transition_commit c s)"
  unfolding transition_commit_def
  by (rule inv_flag_idle) (simp_all add: emit_def)

lemma inv_flag_catch:
  "animation s = None \<Longrightarrow> \<not> awaitedBy isTransitionNew s \<Longrightarrow> inv_flag (transition_catch s)"
  unfolding transition_catch_def
  by (rule inv_flag_idle) (simp_all add: emit_def renderPage_def)

lemma inv_flag_run:
  "animation s = None \<Longrightarrow> \<not> awaitedBy isTransitionNew s \<Longrightarrow> isTransitioning s \<Longrightarrow>
   inv_flag (transition_run old new s)"
  unfolding transition_run_def
  by (auto simp: inv_flag_commit inv_flag_catch emit_def split: option.splits sum.splits)
     (simp add: inv_flag_def transitionPending_def)

lemma inv_flag_rpwt: "inv_flag s \<Longrightarrow> inv_flag (renderPageWithTransition s)"
proof (cases "\<not> pdfDoc s \<or> webglUtils s = None \<or> isTransitioning s")
  case True
  then show "inv_flag s \<Longrightarrow> ?thesis"
    by (auto simp: renderPageWithTransition_def)
next
  case False
  assume a: "inv_flag s"
  from a False have idle: "animation s = None" "\<not> awaitedBy isTransitionNew s"
    by (cases "animation s"; auto simp: inv_flag_def transitionPending_def)+
  show ?thesis
    using False idle
    apply (auto simp: renderPageWithTransition_def Let_def emit_def returnsNullAtOnce_def rendering_def
                intro!: inv_flag_run split: option.splits)
    apply (simp add: inv_flag_def transitionPending_def)
    done
qed

lemma inv_flag_scaled: "inv_flag s \<Longrightarrow> inv_flag (renderPage_scaled ok s)"
  by (cases "raster s")
     (auto simp: renderPage_scaled_def Let_def emit_def returnsNullAtOnce_def rendering_def
        inv_flag_def transitionPending_def)

lemma inv_flag_raster_done: "inv_flag s \<Longrightarrow> inv_flag (raster_done out s)"
proof (cases "raster s")
  case None
  then show "inv_flag s \<Longrightarrow> ?thesis" by (simp add: raster_done_def)
next
  case (Some pw)
  assume a: "inv_flag s"
  obtain p w where pw: "pw = (p, w)" by (cases pw)
  show ?thesis
  proof (cases w)
    case PrerenderNext
    then show ?thesis using Some pw a
      by (simp add: raster_done_def) (simp add: inv_flag_def transitionPending_def awaitedBy_def)
  next
    case PrerenderPrev
    then show ?thesis using Some pw a
      by (simp add: raster_done_def) (simp add: inv_flag_def transitionPending_def awaitedBy_def)
  next
    case (TransitionNew old)
    then have "animation s = None" "isTransitioning s"
      using Some pw a by (cases "animation s"; auto simp: inv_flag_def transitionPending_def awaitedBy_def)+
    then show ?thesis using Some pw TransitionNew
      by (simp add: raster_done_def inv_flag_run)
  next
    case PlainPage
    then show ?thesis using Some pw a
      by (simp add: raster_done_def Let_def) (simp add: inv_flag_def transitionPending_def awaitedBy_def)
  qed
qed

lemma inv_flag_anim_done: "inv_flag s \<Longrightarrow> inv_flag (anim_done s)"
  by (auto simp: anim_done_def inv_flag_def[of s] intro!: inv_flag_commit split: option.splits)

lemma inv_flag_step: "inv_flag s \<Longrightarrow> inv_flag (step e s)"
  by (cases e)
     (simp_all add: handlePDFUpload_def goToNextPage_def goToPreviousPage_def inv_flag_rpwt
        inv_flag_scaled inv_flag_raster_done inv_flag_anim_done)

subsection \<open>The prefetch flag and the cache\<close>

lemma inv_cache_update [simp]:
  "inv_cache (s\<lparr>isTransitioning := b\<rparr>) = inv_cache s"
  "inv_cache (s\<lparr>pdfCanvas := cv\<rparr>) = inv_cache s"
  "inv_cache (s\<lparr>trace := t\<rparr>) = inv_cache s"
  "inv_cache (s\<lparr>scaling := k\<rparr>) = inv_cache s"
  "inv_cache (s\<lparr>currentPage := n\<rparr>) = inv_cache s"
  "inv_cache (s\<lparr>totalPages := n\<rparr>) = inv_cache s"
  "inv_cache (s\<lparr>pdfDoc := b\<rparr>) = inv_cache s"
  "inv_cache (s\<lparr>animation := a\<rparr>) = inv_cache s"
  "inv_cache (s\<lparr>currentTransition := ct\<rparr>) = inv_cache s"
  by (simp_all add: inv_cache_def)

lemma keep3:
  "distinct (map fst xs) \<Longrightarrow> length (filter (\<lambda>p. fst p = a \<or> fst p = b \<or> fst p = c) xs) \<le> 3"
  by (rule distinct_keys_window[where a=a and b=b and c=c]) (auto simp: distinct_map_filter)

lemma no_Some_pair [simp]: "(\<forall>a b. x \<noteq> Some (a, b)) = (x = None)"
  by (cases x) auto

lemma inv_cache_finish:
  "distinct (map fst (pageCache s)) \<Longrightarrow> \<not> awaitedBy isPrerender s \<Longrightarrow> inv_cache (prerender_finish s)"
  by (simp add: inv_cache_def prerender_finish_def pageCache_cleanupCache distinct_map_filter
        pagesToKeep_def keep3)

lemma inv_cache_prev:
  "distinct (map fst (pageCache s)) \<Longrightarrow> \<not> awaitedBy isPrerender s \<Longrightarrow> isPrerendering s \<Longrightarrow>
   inv_cache (prerender_prev s)"
  apply (simp add: prerender_prev_def Let_def emit_def returnsNullAtOnce_def rendering_def)
  apply (intro conjI impI inv_cache_finish)
  apply (simp_all add: AList.distinct_update)
  apply (simp add: inv_cache_def)
  done

lemma inv_cache_next:
  "distinct (map fst (pageCache s)) \<Longrightarrow> \<not> awaitedBy isPrerender s \<Longrightarrow> isPrerendering s \<Longrightarrow>
   inv_cache (prerender_next s)"
  apply (simp add: prerender_next_def Let_def emit_def returnsNullAtOnce_def rendering_def)
  apply (intro conjI impI inv_cache_prev)
  apply (simp_all add: AList.distinct_update)
  apply (simp add: inv_cache_def)
  done

lemma inv_cache_prerender: "inv_cache s \<Longrightarrow> inv_cache (prerenderAdjacentPages s)"
  apply (simp add: prerenderAdjacentPages_def)
  apply (intro conjI impI inv_cache_next)
  apply (simp_all add: inv_cache_def)
  done

lemma inv_cache_renderPage [simp]: "inv_cache (renderPage s) = inv_cache s"
  by (simp add: renderPage_def)

lemma inv_cache_commit: "inv_cache s \<Longrightarrow> inv_cache (transition_commit c s)"
  unfolding transition_commit_def
  by (simp add: emit_def inv_cache_prerender)

lemma inv_cache_catch: "inv_cache s \<Longrightarrow> inv_cache (transition_catch s)"
  unfolding transition_catch_def
  by (simp add: emit_def)

lemma inv_cache_run: "inv_cache s \<Longrightarrow> inv_cache (transition_run old new s)"
  unfolding transition_run_def
  by (auto simp: inv_cache_commit inv_cache_catch emit_def split: option.splits sum.splits)

lemma inv_cache_suspend:
  "inv_cache s \<Longrightarrow> raster s = None \<Longrightarrow> \<not> isPrerender w \<Longrightarrow> inv_cache (s\<lparr>raster := Some (p, w)\<rparr>)"
  by (simp add: inv_cache_def)

lemma inv_cache_rpwt: "inv_cache s \<Longrightarrow> inv_cache (renderPageWithTransition s)"
  apply (simp add: renderPageWithTransition_def Let_def emit_def returnsNullAtOnce_def rendering_def
      split: option.splits)
  apply (intro conjI impI allI inv_cache_run inv_cache_suspend)
  apply simp_all
  done

lemma inv_cache_scaled: "inv_cache s \<Longrightarrow> inv_cache (renderPage_scaled ok s)"
  apply (simp add: renderPage_scaled_def Let_def emit_def returnsNullAtOnce_def rendering_def)
  apply (intro conjI impI inv_cache_suspend)
  apply simp_all
  done

lemma inv_cache_resume:
  "inv_cache s \<Longrightarrow> raster s = Some (p, w) \<Longrightarrow> \<not> isPrerender w \<Longrightarrow> inv_cache (s\<lparr>raster := None\<rparr>)"
  by (simp add: inv_cache_def awaitedBy_def)

lemma inv_cache_raster_done: "inv_cache s \<Longrightarrow> inv_cache (raster_done out s)"
proof (cases "raster s")
  case None
  then show "inv_cache s \<Longrightarrow> ?thesis" by (simp add: raster_done_def)
next
  case (Some pw)
  assume a: "inv_cache s"
  obtain p w where pw: "pw = (p, w)" by (cases pw)
  have d: "distinct (map fst (pageCache s))" using a by (simp add: inv_cache_def)
  show ?thesis
  proof (cases w)
    case PrerenderNext
    then have "isPrerendering s" using a Some pw by (simp add: inv_cache_def awaitedBy_def)
    then show ?thesis using Some pw PrerenderNext d
      by (simp add: raster_done_def inv_cache_prev AList.distinct_update)
  next
    case PrerenderPrev
    then show ?thesis using Some pw d
      by (simp add: raster_done_def inv_cache_finish AList.distinct_update)
  next
    case (TransitionNew old)
    then show ?thesis using Some pw inv_cache_resume[OF a, of p w]
      by (simp add: raster_done_def inv_cache_run)
  next
    case PlainPage
    then show ?thesis using Some pw inv_cache_resume[OF a, of p w]
      by (simp add: raster_done_def Let_def inv_cache_prerender)
  qed
qed

lemma inv_cache_anim_done: "inv_cache s \<Longrightarrow> inv_cache (anim_done s)"
  by (auto simp: anim_done_def inv_cache_commit split: option.splits)

lemma inv_cache_step: "inv_cache s \<Longrightarrow> inv_cache (step e s)"
  by (cases e)
     (simp_all add: handlePDFUpload_def goToNextPage_def goToPreviousPage_def inv_cache_rpwt
        inv_cache_scaled inv_cache_raster_done inv_cache_anim_done)

subsection \<open>Every reachable state\<close>

lemma inv_constructor: "inv (constructor w)"
  by (simp add: inv_def inv_pages_def inv_flag_def inv_cache_def transitionPending_def
        awaitedBy_def constructor_def)

lemma inv_step: "inv s \<Longrightarrow> valid_event e \<Longrightarrow> inv (step e s)"
  by (simp add: inv_def inv_pages_step inv_flag_step inv_cache_step)

lemma inv_run: "inv s \<Longrightarrow> list_all valid_event es \<Longrightarrow> inv (run es s)"
  by (induction es arbitrary: s) (simp_all add: inv_step)

lemma reachable_inv: "list_all valid_event es \<Longrightarrow> inv (run es (constructor w))"
  by (rule inv_run[OF inv_constructor])

subsection \<open>Navigation, the engine and the animation loop\<close>

lemma transition_run_frame [simp]:
  "currentPage (transition_run old new s) = currentPage s"
  "totalPages (transition_run old new s) = totalPages s"
  "pdfDoc (transition_run old new s) = pdfDoc s"
  by (simp_all add: transition_run_def transition_commit_def transition_catch_def renderPage_def
        emit_def split: option.splits sum.splits)

lemma currentPage_rpwt [simp]: "currentPage (renderPageWithTransition s) = currentPage s"
  by (simp add: renderPageWithTransition_def renderPage_def Let_def emit_def split: option.splits)

lemma totalPages_rpwt [simp]: "totalPages (renderPageWithTransition s) = totalPages s"
  by (simp add: renderPageWithTransition_def renderPage_def Let_def emit_def split: option.splits)

lemma pdfDoc_rpwt [simp]: "pdfDoc (renderPageWithTransition s) = pdfDoc s"
  by (simp add: renderPageWithTransition_def renderPage_def Let_def emit_def split: option.splits)

lemma createProgram_ok [simp]:
  "createProgram (Some okDriver) v f = Inr (Some (v, f))"
  by (simp add: createProgram_def createShader_def okDriver_def)

lemma createProgram_broken [simp]:
  "createProgram (Some brokenDriver) v f = Inr None"
  by (simp add: createProgram_def createShader_def brokenDriver_def)

lemma createProgram_context: "createProgram (Some d) v f \<noteq> Inl e"
  by (simp add: createProgram_def createShader_def)

lemma createProgram_no_context [simp]: "createProgram None v f = Inl TypeError"
  by (simp add: createProgram_def createShader_def)

lemma animate_not_rejected: "animate duration clock frames \<noteq> Rejected e"
  by (induction clock arbitrary: frames) (simp_all add: Let_def)

lemma animate_below:
  "0 < duration \<Longrightarrow> \<forall>e\<in>set pre. e < duration \<Longrightarrow>
   animate duration (pre @ rest) frames
     = animate duration rest (frames @ map (\<lambda>e. Num (real_of_int e / real_of_int duration)) pre)"
  by (induction pre arbitrary: frames)
     (simp_all add: Let_def js_div_def Math_min_1_def js_less_1_def)

lemma animate_reached:
  "0 < duration \<Longrightarrow> duration \<le> e \<Longrightarrow> animate duration (e # later) frames = Resolved (frames @ [Num 1])"
  by (simp add: Let_def js_div_def Math_min_1_def js_less_1_def)

lemma animate_negative_pending:
  "duration < 0 \<Longrightarrow> \<forall>e\<in>set clock. 0 \<le> e \<Longrightarrow> \<exists>fs. animate duration clock frames = Pending fs"
proof (induction clock arbitrary: frames)
  case Nil
  then show ?case by simp
next
  case (Cons e clock)
  have "real_of_int e / real_of_int duration \<le> 0"
    using Cons.prems by (simp add: divide_le_0_iff)
  then show ?case using Cons
    by (simp add: Let_def js_div_def Math_min_1_def js_less_1_def)
qed


subsection \<open>Runs, requests during a transition and the end of an animation\<close>

lemma run_append: "run (xs @ ys) s = run ys (run xs s)"
  by (induction xs arbitrary: s) simp_all

lemma navigation_noop: "isTransitioning t \<Longrightarrow> navigation e \<Longrightarrow> step e t = t"
  by (cases e) (simp_all add: goToNextPage_def goToPreviousPage_def)

lemma navigations_noop: "isTransitioning t \<Longrightarrow> list_all navigation navs \<Longrightarrow> run navs t = t"
  by (induction navs) (simp_all add: navigation_noop del: step.simps)

lemma transitions_append: "transitions (xs @ ys) = transitions xs @ transitions ys"
  by (induction xs rule: transitions.induct) simp_all

lemma requests_append: "requests (xs @ ys) = requests xs @ requests ys"
  by (induction xs rule: requests.induct) simp_all

lemma transitions_prerender [simp]:
  "transitions (trace (prerender_prev s)) = transitions (trace s)"
  "transitions (trace (prerender_next s)) = transitions (trace s)"
  "transitions (trace (prerenderAdjacentPages s)) = transitions (trace s)"
proof -
  show p: "transitions (trace (prerender_prev s)) = transitions (trace s)" for s
    by (simp add: prerender_prev_def emit_def Let_def transitions_append)
  show n: "transitions (trace (prerender_next s)) = transitions (trace s)" for s
    by (simp add: prerender_next_def emit_def Let_def transitions_append p)
  show "transitions (trace (prerenderAdjacentPages s)) = transitions (trace s)"
    by (simp add: prerenderAdjacentPages_def n)
qed

lemma commit_fields:
  "currentPage (transition_commit c s) = currentPage s"
  "pdfCanvas (transition_commit c s) = c"
  "\<not> isTransitioning (transition_commit c s)"
  "transitions (trace (transition_commit c s)) = transitions (trace s) @ [Commit c]"
  by (simp_all add: transition_commit_def emit_def transitions_append)

lemma raster_done_other:
  assumes "\<not> awaitedBy isTransitionNew t"
  shows "animation (raster_done out t) = animation t"
    and "isTransitioning (raster_done out t) = isTransitioning t"
    and "currentPage (raster_done out t) = currentPage t"
    and "transitions (trace (raster_done out t)) = transitions (trace t)"
proof -
  have "animation (raster_done out t) = animation t \<and>
        isTransitioning (raster_done out t) = isTransitioning t \<and>
        currentPage (raster_done out t) = currentPage t \<and>
        transitions (trace (raster_done out t)) = transitions (trace t)"
  proof (cases "raster t")
    case None
    then show ?thesis by (simp add: raster_done_def)
  next
    case (Some pw)
    obtain p w where pw: "pw = (p, w)" by (cases pw)
    show ?thesis
      using assms Some pw
      by (cases w) (simp_all add: raster_done_def awaitedBy_def Let_def)
  qed
  then show "animation (raster_done out t) = animation t"
    and "isTransitioning (raster_done out t) = isTransitioning t"
    and "currentPage (raster_done out t) = currentPage t"
    and "transitions (trace (raster_done out t)) = transitions (trace t)"
    by simp_all
qed

lemma animation_completes:
  assumes "animation t = Some (old, new)" and "isTransitioning t"
    and "\<not> awaitedBy isTransitionNew t" and "list_all navigation navs"
    and "f = run ([RasterDone out] @ navs @ [AnimDone]) t"
  shows "currentPage f = currentPage t \<and> pdfCanvas f = new \<and> \<not> isTransitioning f \<and>
         transitions (trace f) = transitions (trace t) @ [Commit new]"
proof -
  let ?u = "raster_done out t"
  have u: "animation ?u = Some (old, new)" "isTransitioning ?u" "currentPage ?u = currentPage t"
    "transitions (trace ?u) = transitions (trace t)"
    using raster_done_other[OF assms(3), of out] assms(1,2) by simp_all
  have "f = run (navs @ [AnimDone]) ?u" using assms(5) by simp
  also have "\<dots> = step AnimDone ?u"
    using u(2) assms(4) by (simp add: run_append navigations_noop del: step.simps)
  also have "\<dots> = transition_commit new (?u\<lparr>animation := None\<rparr>)"
    using u(1) by (simp add: anim_done_def)
  finally show ?thesis using u(3,4) by (simp add: commit_fields)
qed

lemma has_update: "has (AList.update k v cache) j = (j = k \<or> has cache j)"
  by (simp add: has_def AList.update_conv')

lemma raster_done_idle: "raster s = None \<Longrightarrow> raster_done out s = s"
  by (simp add: raster_done_def)


section \<open>The claims\<close>

subsection \<open>C1: navigation requests during a transition\<close>

text \<open>
  C1: let a navigation request be accepted in a reachable state with a loaded document
  and a working engine, so that a transition is in flight, and let navigation requests
  arrive in any number before and after the raster that is in progress completes, until the
  animation ends. Every request made while \<open>isTransitioning\<close> is set leaves the whole
  state as it is (so \<open>currentPage\<close> is unchanged and nothing is started). When the
  animation ends, \<open>currentPage\<close> is the target of the accepted request, exactly one
  animation was started and one canvas committed, and the canvas displayed is the one
  obtained for that target: its cache entry, or else the canvas handed to
  \<open>PDFHandler.renderPage\<close> for the target (the raster of the target when that call
  succeeds).
\<close>

theorem later_requests_dropped:
  assumes reach: "list_all valid_event es" "s = run es (constructor w)"
    and engine: "pdfDoc s" "webglUtils s = Some (Some d)"
      "createProgram (Some d) getBasicVertexShader
         (Fragment (getFragmentShaderForTransition (currentTransition s))) = Inr (Some prog)"
    and idle: "\<not> isTransitioning s"
    and accepted: "req = Next \<and> currentPage s < totalPages s \<and> target = currentPage s + 1 \<or>
                   req = Prev \<and> 1 < currentPage s \<and> target = currentPage s - 1"
    and navs: "list_all navigation navs1" "list_all navigation navs2"
    and new: "newCanvas = (case map_of (pageCache s) target of
                             Some cached \<Rightarrow> cached
                           | None \<Rightarrow> if rendering s then Blank else rasterResult out target Blank)"
    and fin: "fin = run (navs1 @ [RasterDone out] @ navs2 @ [AnimDone]) (step req s)"
  shows "(isTransitioning t \<longrightarrow> run navs1 t = t) \<and>
         isTransitioning (step req s) \<and> currentPage (step req s) = target \<and>
         currentPage fin = target \<and> pdfCanvas fin = newCanvas \<and> \<not> isTransitioning fin \<and>
         transitions (trace fin)
           = transitions (trace s) @ [AnimationStart (pdfCanvas s) newCanvas, Commit newCanvas]"
proof -
  let ?s0 = "s\<lparr>currentPage := target\<rparr>"
  let ?s1 = "step req s"
  have i: "inv_flag s" using reach reachable_inv[of es w] by (simp add: inv_def)
  have quiet: "\<not> awaitedBy isTransitionNew s"
    using i idle by (simp add: inv_flag_def transitionPending_def)
  have s1: "?s1 = renderPageWithTransition ?s0"
    using accepted idle by (auto simp: goToNextPage_def goToPreviousPage_def)
  define anim where "anim u = (emit (AnimationStart (pdfCanvas s) newCanvas) u)
                                \<lparr>animation := Some (pdfCanvas s, newCanvas)\<rparr>" for u :: app
  have run_tr: "transition_run (pdfCanvas s) newCanvas u = anim u"
    if "webglUtils u = webglUtils s" "currentTransition u = currentTransition s" for u
    using that engine by (simp add: transition_run_def anim_def)
  have goal: "isTransitioning ?s1 \<and> currentPage ?s1 = target \<and>
         currentPage fin = target \<and> pdfCanvas fin = newCanvas \<and> \<not> isTransitioning fin \<and>
         transitions (trace fin)
           = transitions (trace s) @ [AnimationStart (pdfCanvas s) newCanvas, Commit newCanvas]"
  proof (cases "map_of (pageCache s) target = None \<and> \<not> rendering s")
    case False
    define u where "u = (if map_of (pageCache s) target = None
         then emit (Rasterize (TransitionNew (pdfCanvas s)) target (totalPages s)) (?s0\<lparr>isTransitioning := True\<rparr>)
         else ?s0\<lparr>isTransitioning := True\<rparr>)"
    have a: "?s1 = anim u"
    proof (cases "map_of (pageCache s) target")
      case None
      with False have "rendering s" by simp
      then show ?thesis
        using None engine idle new
          run_tr[of "emit (Rasterize (TransitionNew (pdfCanvas s)) target (totalPages s)) (?s0\<lparr>isTransitioning := True\<rparr>)"]
        by (simp add: s1 u_def renderPageWithTransition_def Let_def returnsNullAtOnce_def rendering_def emit_def)
    next
      case (Some cached)
      then show ?thesis
        using engine idle new run_tr[of "?s0\<lparr>isTransitioning := True\<rparr>"]
        by (simp add: s1 u_def renderPageWithTransition_def Let_def)
    qed
    have b: "isTransitioning ?s1" "currentPage ?s1 = target" "animation ?s1 = Some (pdfCanvas s, newCanvas)"
      "\<not> awaitedBy isTransitionNew ?s1"
      "transitions (trace ?s1) = transitions (trace s) @ [AnimationStart (pdfCanvas s) newCanvas]"
      using quiet by (simp_all add: a anim_def u_def emit_def transitions_append awaitedBy_def)
    have "run navs1 ?s1 = ?s1" using b(1) navs by (simp add: navigations_noop)
    then have "fin = run ([RasterDone out] @ navs2 @ [AnimDone]) ?s1"
      using fin by (simp add: run_append)
    from animation_completes[OF b(3) b(1) b(4) navs(2) this] b
    show ?thesis by simp
  next
    case True
    then have nc: "newCanvas = rasterResult out target Blank" and r: "raster s = None"
      using new by (simp_all add: rendering_def)
    let ?r = "emit (Rasterize (TransitionNew (pdfCanvas s)) target (totalPages s)) (?s0\<lparr>isTransitioning := True\<rparr>)"
    have a: "?s1 = ?r\<lparr>raster := Some (target, TransitionNew (pdfCanvas s))\<rparr>"
      using True engine idle r
      by (simp add: s1 renderPageWithTransition_def Let_def emit_def returnsNullAtOnce_def rendering_def)
    have b: "isTransitioning ?s1" "currentPage ?s1 = target" by (simp_all add: a emit_def)
    let ?v = "?r\<lparr>raster := Some (target, TransitionNew (pdfCanvas s)), raster := None\<rparr>"
    have "run (navs1 @ [RasterDone out]) ?s1 = raster_done out ?s1"
    proof -
      have "run navs1 ?s1 = ?s1" using b navs by (simp add: navigations_noop)
      then show ?thesis by (simp add: run_append)
    qed
    also have "\<dots> = anim ?v"
      unfolding a
      by (subst run_tr[symmetric]) (simp_all add: raster_done_def nc emit_def)
    finally have c: "run (navs1 @ [RasterDone out]) ?s1 = anim ?v" .
    have tr: "isTransitioning (anim ?v)" by (simp add: anim_def emit_def)
    have "fin = run (navs2 @ [AnimDone]) (anim ?v)"
      using fin c run_append[of "navs1 @ [RasterDone out]" "navs2 @ [AnimDone]" ?s1] by simp
    also have "\<dots> = step AnimDone (anim ?v)"
      using tr navs by (simp add: run_append navigations_noop del: step.simps)
    finally have f: "fin = transition_commit newCanvas ((anim ?v)\<lparr>animation := None\<rparr>)"
      by (simp add: anim_done_def anim_def)
    show ?thesis
      using b by (simp add: f commit_fields anim_def emit_def transitions_append)
  qed
  moreover have "isTransitioning t \<longrightarrow> run navs1 t = t"
    using navs by (simp add: navigations_noop)
  ultimately show ?thesis by simp
qed

text \<open>
  Right after a document of five pages is loaded, a request for the next page is
  accepted. Three more while page 2 is rasterized, and a request for the next and one for
  the previous page while the animation runs, are dropped: page 2 is displayed, after
  one animation.
\<close>

theorem later_requests_dropped_witness:
  "isTransitioning (step Next (run [Loaded 5] (constructor (Some (Some okDriver))))) \<and>
   run [Next, Next, Next] (step Next (run [Loaded 5] (constructor (Some (Some okDriver)))))
     = step Next (run [Loaded 5] (constructor (Some (Some okDriver)))) \<and>
   currentPage (run ([Next, Next, Next] @ [RasterDone Success] @ [Next, Prev] @ [AnimDone])
       (step Next (run [Loaded 5] (constructor (Some (Some okDriver)))))) = 2 \<and>
   pdfCanvas (run ([Next, Next, Next] @ [RasterDone Success] @ [Next, Prev] @ [AnimDone])
       (step Next (run [Loaded 5] (constructor (Some (Some okDriver)))))) = Rendered 2 \<and>
   transitions (trace (run ([Next, Next, Next] @ [RasterDone Success] @ [Next, Prev] @ [AnimDone])
       (step Next (run [Loaded 5] (constructor (Some (Some okDriver)))))))
     = [AnimationStart Blank (Rendered 2), Commit (Rendered 2)]"
proof -
  let ?s = "run [Loaded 5] (constructor (Some (Some okDriver)))"
  have s: "?s = (constructor (Some (Some okDriver)))\<lparr>pdfDoc := True, totalPages := 5, currentPage := 1, scaling := 1\<rparr>"
    by (simp add: handlePDFUpload_def renderPage_def constructor_def)
  have h: "pdfDoc ?s" "webglUtils ?s = Some (Some okDriver)" "currentTransition ?s = ''fade''"
    "\<not> isTransitioning ?s" "\<not> rendering ?s" "currentPage ?s = 1" "totalPages ?s = 5"
    "pageCache ?s = []" "pdfCanvas ?s = Blank" "trace ?s = []"
    unfolding s by (simp_all add: constructor_def rendering_def)
  have v: "list_all valid_event [Loaded 5]" by simp
  have p: "createProgram (Some okDriver) getBasicVertexShader
         (Fragment (getFragmentShaderForTransition (currentTransition ?s)))
       = Inr (Some (BasicVertexShader, Fragment FadeFragmentShader))"
    by (simp only: h createProgram_ok)
       (simp add: getBasicVertexShader_def getFragmentShaderForTransition_def getFadeFragmentShader_def)
  have a: "Next = Next \<and> currentPage ?s < totalPages ?s \<and> 2 = currentPage ?s + 1 \<or>
           Next = Prev \<and> 1 < currentPage ?s \<and> 2 = currentPage ?s - 1"
    by (simp only: h) simp
  have n: "list_all navigation [Next, Next, Next]" "list_all navigation [Next, Prev]" by simp_all
  have c: "Rendered 2 = (case map_of (pageCache ?s) 2 of
                           Some cached \<Rightarrow> cached
                         | None \<Rightarrow> if rendering ?s then Blank else rasterResult Success 2 Blank)"
    by (simp only: h) simp
  from later_requests_dropped[OF v refl h(1) h(2) p h(4) a n c refl, of "step Next ?s"]
  show ?thesis by (simp only: h) simp
qed

subsection \<open>C2: the duration of a transition\<close>

text \<open>
  C2 says that for every duration \<open>\<le> 0\<close> the animation loop terminates and resolves
  at progress 1. With duration 0 and a first clock reading of 0 (the first frame is
  drawn in the call itself), \<open>elapsed / duration\<close> is \<open>0 / 0\<close>: the one frame drawn
  has progress \<open>NaN\<close>. With a negative duration the progress is never above 0 and each
  frame requests another: after four frames the promise is still pending (and after
  any number of frames, by \<open>animate_negative_pending\<close>).
\<close>

theorem zero_duration_counterexample:
  "performTransition (Some okDriver) (Rendered 1) (Rendered 2) ''fade'' 0 1 [0] = Resolved [NaN] \<and>
   performTransition (Some okDriver) (Rendered 1) (Rendered 2) ''fade'' (- 800) 1 [0, 16, 800, 1600]
     = Pending [Num 0, Num (- (1 / 50)), Num (- 1), Num (- 2)]"
  by (simp add: performTransition_def Let_def js_div_def Math_min_1_def js_less_1_def)

text \<open>
  C2, amended: when the shader program is created, for every duration \<open>> 0\<close> the
  loop draws one frame with progress \<open>elapsed / duration < 1\<close> for each clock
  reading below the duration and resolves at the first reading that reaches the
  duration, with progress 1; for duration 0 it resolves after its first frame (no
  further frame is requested), with progress 1 when the first clock reading is positive
  and \<open>NaN\<close> when it is 0.
\<close>

theorem duration_resolves:
  assumes "createProgram gl getBasicVertexShader (Fragment (getFragmentShaderForTransition transitionType)) = Inr (Some prog)"
  shows "(0 < duration \<and> (\<forall>e\<in>set before. e < duration) \<and> duration \<le> elapsed \<longrightarrow>
            performTransition gl fromImage toImage transitionType duration direction (before @ elapsed # later)
              = Resolved (map (\<lambda>e. Num (real_of_int e / real_of_int duration)) before @ [Num 1])) \<and>
         (0 \<le> elapsed \<longrightarrow>
            performTransition gl fromImage toImage transitionType 0 direction (elapsed # later)
              = Resolved [if elapsed = 0 then NaN else Num 1])"
  using assms
  by (auto simp: performTransition_def animate_below animate_reached Let_def js_div_def
        Math_min_1_def js_less_1_def simp del: animate.simps)
     (simp_all add: Let_def js_div_def Math_min_1_def js_less_1_def)

text \<open>
  A duration of 800 ms with frames at 0, 400 and 816 ms, and a duration of 0 with a first
  frame at 3 ms.
\<close>

theorem duration_resolves_witness:
  "performTransition (Some okDriver) (Rendered 1) (Rendered 2) ''slide'' 800 1 [0, 400, 816, 832]
     = Resolved [Num 0, Num (1 / 2), Num 1] \<and>
   performTransition (Some okDriver) (Rendered 1) (Rendered 2) ''slide'' 0 1 [3, 19]
     = Resolved [Num 1]"
  using duration_resolves[where gl = "Some okDriver" and transitionType = "''slide''"
           and prog = "(BasicVertexShader, Fragment SlideFragmentShader)" and duration = 800
           and before = "[0, 400]" and elapsed = 816 and later = "[832]"
           and fromImage = "Rendered 1" and toImage = "Rendered 2" and direction = 1]
        duration_resolves[where gl = "Some okDriver" and transitionType = "''slide''"
           and prog = "(BasicVertexShader, Fragment SlideFragmentShader)" and duration = 800
           and before = "[]" and elapsed = 3 and later = "[19]"
           and fromImage = "Rendered 1" and toImage = "Rendered 2" and direction = 1]
  by (simp add: getBasicVertexShader_def getFragmentShaderForTransition_def getSlideFragmentShader_def)

subsection \<open>C3: the size and the keys of the page cache\<close>

text \<open>
  C3 says that the page cache holds at most 3 entries at every point in execution.
  The run below loads a document of five pages, walks to page 4 while each prefetch
  completes, walks back to page 2 while the prefetch of page 5 is still rendering, and
  then lets that rendering complete: the prefetch stores page 5 beside pages 2, 3 and 4
  and suspends to render page 1, before any cleanup. The cache holds 4 entries.
\<close>

theorem cache_above_three_counterexample:
  "\<not> length (pageCache (run [Loaded 5, ScaleDone True, RasterDone Success, RasterDone Success,
        Next, AnimDone, RasterDone Success, RasterDone Success,
        Next, AnimDone, RasterDone Success,
        Next, AnimDone, Prev, AnimDone, Prev, AnimDone, RasterDone Success]
      (constructor (Some (Some okDriver))))) \<le> 3"
  by code_simp

text \<open>
  C3, amended: after any cleanup pass completes, the page cache (a \<open>Map\<close>, whose keys
  are distinct) holds at most 3 entries and every key is one of \<open>currentPage - 1\<close>,
  \<open>currentPage\<close>, \<open>currentPage + 1\<close>; and in every reachable state in which no
  prefetch is in flight the cache holds at most 3 entries. While a prefetch is in
  flight, between its insertions and its cleanup, the cache may hold more.
\<close>

theorem cache_bounded_after_cleanup:
  "(distinct (map fst (pageCache s)) \<longrightarrow>
      length (pageCache (cleanupCache s)) \<le> 3 \<and>
      fst ` set (pageCache (cleanupCache s)) \<subseteq> {currentPage s - 1, currentPage s, currentPage s + 1}) \<and>
   (list_all valid_event es \<longrightarrow>
      distinct (map fst (pageCache (run es (constructor w)))) \<and>
      (\<not> isPrerendering (run es (constructor w)) \<longrightarrow> length (pageCache (run es (constructor w))) \<le> 3))"
proof (intro conjI impI)
  assume "distinct (map fst (pageCache s))"
  then show "length (pageCache (cleanupCache s)) \<le> 3"
    and "fst ` set (pageCache (cleanupCache s)) \<subseteq> {currentPage s - 1, currentPage s, currentPage s + 1}"
    using cleanup_bound[of s] by simp_all
next
  assume "list_all valid_event es"
  then have "inv_cache (run es (constructor w))"
    using reachable_inv[of es w] by (simp add: inv_def)
  then show "distinct (map fst (pageCache (run es (constructor w))))"
    by (simp add: inv_cache_def)
next
  assume "list_all valid_event es" "\<not> isPrerendering (run es (constructor w))"
  then show "length (pageCache (run es (constructor w))) \<le> 3"
    using reachable_inv[of es w] by (simp add: inv_def inv_cache_def)
qed

text \<open>
  The theorem at the state of the counterexample, whose four keys are distinct: the
  cleanup pass leaves at most 3 entries. And at the state after the first prefetch has
  completed: no prefetch is in flight, and the cache holds at most 3 entries.
\<close>

theorem cache_bounded_after_cleanup_witness:
  "length (pageCache (cleanupCache (run [Loaded 5, ScaleDone True, RasterDone Success, RasterDone Success,
        Next, AnimDone, RasterDone Success, RasterDone Success,
        Next, AnimDone, RasterDone Success,
        Next, AnimDone, Prev, AnimDone, Prev, AnimDone, RasterDone Success]
      (constructor (Some (Some okDriver)))))) \<le> 3 \<and>
   \<not> isPrerendering (run [Loaded 5, ScaleDone True, RasterDone Success, RasterDone Success]
      (constructor (Some (Some okDriver)))) \<and>
   length (pageCache (run [Loaded 5, ScaleDone True, RasterDone Success, RasterDone Success]
      (constructor (Some (Some okDriver))))) \<le> 3"
proof -
  let ?es = "[Loaded 5, ScaleDone True, RasterDone Success, RasterDone Success,
        Next, AnimDone, RasterDone Success, RasterDone Success,
        Next, AnimDone, RasterDone Success,
        Next, AnimDone, Prev, AnimDone, Prev, AnimDone, RasterDone Success]"
  let ?es' = "[Loaded 5, ScaleDone True, RasterDone Success, RasterDone Success]"
  have v: "list_all valid_event ?es" "list_all valid_event ?es'" by simp_all
  have q: "\<not> isPrerendering (run ?es' (constructor (Some (Some okDriver))))" by code_simp
  from cache_bounded_after_cleanup[of "run ?es (constructor (Some (Some okDriver)))" ?es "Some (Some okDriver)"]
       cache_bounded_after_cleanup[of "run ?es (constructor (Some (Some okDriver)))" ?es' "Some (Some okDriver)"]
       v q
  show ?thesis by blast
qed

subsection \<open>C4: a failed rasterization of the new page\<close>

text \<open>
  C4 says that a page change whose new page fails to rasterize falls back to a plain
  display without animation. In the run below the page change to page 2 misses the
  cache, its rasterization fails in \<open>page.render\<close>, and \<open>PDFHandler.renderPage\<close>
  returns \<open>null\<close> instead of throwing: the result is not looked at, the animation runs
  towards the unfinished canvas, that canvas is committed to the display, and the
  \<open>catch\<close> branch with its call of \<open>renderPage\<close> is never entered (the one
  suspended \<open>renderPage\<close> is that of the upload). Prefetch is started.
\<close>

theorem failed_raster_still_animates:
  "trace (run [Loaded 3, Next, RasterDone RenderError, AnimDone] (constructor (Some (Some okDriver))))
     = [Rasterize (TransitionNew Blank) 2 3, AnimationStart Blank (Failed 2), Commit (Failed 2),
        Rasterize PrerenderNext 3 3] \<and>
   pdfCanvas (run [Loaded 3, Next, RasterDone RenderError, AnimDone] (constructor (Some (Some okDriver))))
     = Failed 2 \<and>
   scaling (run [Loaded 3, Next, RasterDone RenderError, AnimDone] (constructor (Some (Some okDriver)))) = 1"
  by code_simp

subsection \<open>C5: an unknown transition type\<close>

text \<open>
  C5: for every transition type other than \<open>fade\<close>, \<open>slide\<close> and \<open>zoom\<close>, the
  fragment program selected is the one selected for \<open>fade\<close>; what it draws is the
  linear blend of the two textures, and at progress 0.5 the midpoint of the two colours.
\<close>

theorem unknown_transition_is_fade:
  assumes "transitionType \<noteq> ''fade''" "transitionType \<noteq> ''slide''" "transitionType \<noteq> ''zoom''"
  shows "getFragmentShaderForTransition transitionType = getFragmentShaderForTransition ''fade'' \<and>
         fragColor (getFragmentShaderForTransition transitionType) tex1 tex2 progress direction uv
           = mix (tex1 uv) (tex2 uv) progress \<and>
         fragColor (getFragmentShaderForTransition transitionType) tex1 tex2 (1 / 2) direction uv
           = midpoint4 (tex1 uv) (tex2 uv)"
  using assms
  by (simp add: getFragmentShaderForTransition_def getFadeFragmentShader_def mix_def midpoint4_def
        split: prod.splits)

text \<open>The type \<open>cube\<close>, between a red and a blue texture.\<close>

theorem unknown_transition_is_fade_witness:
  "getFragmentShaderForTransition ''cube'' = getFragmentShaderForTransition ''fade'' \<and>
   fragColor (getFragmentShaderForTransition ''cube'') (\<lambda>uv. (1, 0, 0, 1)) (\<lambda>uv. (0, 0, 1, 1)) (1 / 2) 1 (0, 0)
     = (1 / 2, 0, 1 / 2, 1)"
proof -
  have "midpoint4 (1, 0, 0, 1) (0, 0, 1, 1) = (1 / 2, 0, 1 / 2, 1)"
    by (simp add: midpoint4_def)
  with unknown_transition_is_fade[of "''cube''" "\<lambda>uv. (1, 0, 0, 1)" "\<lambda>uv. (0, 0, 1, 1)" "1 / 2" 1 "(0, 0)"]
  show ?thesis by auto
qed

subsection \<open>C6: the promise of performTransition\<close>

text \<open>
  C6 says that the promise returned by \<open>performTransition\<close> never rejects, for every
  pair of surfaces and every descriptor. On an engine whose \<open>initGL\<close> found no WebGL
  context, \<open>gl\<close> is null: \<open>createShader\<close> throws a \<open>TypeError\<close> inside the
  executor of the promise, and the promise rejects.
\<close>

theorem performTransition_rejects_counterexample:
  "performTransition None (Rendered 1) (Rendered 2) ''fade'' 800 1 [0, 400, 800] = Rejected TypeError"
  by (simp add: performTransition_def)

text \<open>
  C6, amended: on an engine that has a graphics context, for every pair of surfaces
  and every descriptor, the promise returned by \<open>performTransition\<close> never rejects;
  when the creation of the shader program fails it resolves at once, without drawing
  a frame.
\<close>

theorem performTransition_never_rejects:
  "performTransition (Some d) fromImage toImage transitionType duration direction clock \<noteq> Rejected e \<and>
   (createProgram (Some d) getBasicVertexShader (Fragment (getFragmentShaderForTransition transitionType)) = Inr None
      \<longrightarrow> performTransition (Some d) fromImage toImage transitionType duration direction clock = Resolved [])"
  by (simp add: performTransition_def createProgram_context animate_not_rejected
        split: sum.splits option.splits)

text \<open>A driver that compiles nothing: the promise resolves with no frame drawn.\<close>

theorem performTransition_never_rejects_witness:
  "performTransition (Some brokenDriver) (Rendered 1) (Rendered 2) ''zoom'' 800 1 [0, 400, 800] = Resolved []"
  using performTransition_never_rejects[of brokenDriver "Rendered 1" "Rendered 2" "''zoom''" 800 1 "[0, 400, 800]" TypeError]
  by simp

subsection \<open>C7: the cleanup pass is idempotent\<close>

text \<open>
  C7: for every state, running \<open>cleanupCache\<close> twice in a row (the current page, and
  with it the set of pages to keep, is the same) gives the state that running it once
  gives.
\<close>

theorem cleanupCache_idempotent: "cleanupCache (cleanupCache s) = cleanupCache s"
  by (simp add: cleanupCache_alt pagesToKeep_def)

subsection \<open>C8: one pass of prefetch\<close>

text \<open>
  C8: a call of \<open>prerenderAdjacentPages\<close> while a prefetch is in flight changes
  nothing. Otherwise, with a loaded document and the current page within it, a pass
  during which the current page stays the same calls \<open>PDFHandler.renderPage\<close> for
  exactly the pages of \<open>prefetchTargets\<close> (the next and the previous page, without
  those outside \<open>[1, totalPages]\<close> and those already cached), in this order, stores
  the canvas of each call under its page number, runs the cleanup pass and resets
  \<open>isPrerendering\<close>. The two outcomes are those of the calls that render; when the
  handler is rendering another page, each call returns at once and the canvas stored
  is blank.
\<close>

theorem prefetch_pass:
  "(isPrerendering s \<longrightarrow> prerenderAdjacentPages s = s) \<and>
   (\<not> isPrerendering s \<and> pdfDoc s \<and> 1 \<le> currentPage s \<and> currentPage s \<le> totalPages s \<longrightarrow>
      (let fin = (if rendering s then prerenderAdjacentPages s
                  else run [RasterDone out1, RasterDone out2] (prerenderAdjacentPages s));
           results = map (\<lambda>(p, out). (p, if rendering s then Blank else rasterResult out p Blank))
                       (zip (prefetchTargets s) [out1, out2])
       in requests (trace fin) = requests (trace s) @ prefetchTargets s \<and>
          pageCache fin
            = pageCache (cleanupCache
                (s\<lparr>pageCache := fold (\<lambda>(p, c). AList.update p c) results (pageCache s)\<rparr>)) \<and>
          \<not> isPrerendering fin \<and> currentPage fin = currentPage s))"
proof (intro conjI impI)
  assume "isPrerendering s"
  then show "prerenderAdjacentPages s = s" by (simp add: prerenderAdjacentPages_def)
next
  assume a: "\<not> isPrerendering s \<and> pdfDoc s \<and> 1 \<le> currentPage s \<and> currentPage s \<le> totalPages s"
  let ?n = "currentPage s < totalPages s \<and> \<not> has (pageCache s) (currentPage s + 1)"
  let ?p = "currentPage s > 1 \<and> \<not> has (pageCache s) (currentPage s - 1)"
  show "(let fin = (if rendering s then prerenderAdjacentPages s
                  else run [RasterDone out1, RasterDone out2] (prerenderAdjacentPages s));
           results = map (\<lambda>(p, out). (p, if rendering s then Blank else rasterResult out p Blank))
                       (zip (prefetchTargets s) [out1, out2])
       in requests (trace fin) = requests (trace s) @ prefetchTargets s \<and>
          pageCache fin
            = pageCache (cleanupCache
                (s\<lparr>pageCache := fold (\<lambda>(p, c). AList.update p c) results (pageCache s)\<rparr>)) \<and>
          \<not> isPrerendering fin \<and> currentPage fin = currentPage s)"
  proof (cases "rendering s")
    case True
    then show ?thesis
      using a
      by (cases ?n; cases ?p)
         (simp_all add: Let_def prerenderAdjacentPages_def prerender_next_def prerender_prev_def
            prerender_finish_def emit_def returnsNullAtOnce_def rendering_def prefetchTargets_def
            requests_append has_update pageCache_cleanupCache pagesToKeep_def)
  next
    case False
    then have r: "raster s = None" by (simp add: rendering_def)
    show ?thesis
      using a False r
      by (cases ?n; cases ?p)
         (simp_all add: Let_def prerenderAdjacentPages_def prerender_next_def prerender_prev_def
            prerender_finish_def emit_def returnsNullAtOnce_def rendering_def prefetchTargets_def
            requests_append has_update pageCache_cleanupCache pagesToKeep_def raster_done_def)
  qed
qed


text \<open>
  On page 3 with pages 1, 2 and 3 cached: only page 4 is rasterized, page 1 is dropped
  by the cleanup, and a second call during the pass changes nothing.
\<close>

theorem prefetch_pass_witness:
  "prerenderAdjacentPages (prerenderAdjacentPages viewingPage3) = prerenderAdjacentPages viewingPage3 \<and>
   requests (trace (run [RasterDone Success, RasterDone Success] (prerenderAdjacentPages viewingPage3))) = [4] \<and>
   pageCache (run [RasterDone Success, RasterDone Success] (prerenderAdjacentPages viewingPage3))
     = [(2, Rendered 2), (3, Rendered 3), (4, Rendered 4)] \<and>
   \<not> isPrerendering (run [RasterDone Success, RasterDone Success] (prerenderAdjacentPages viewingPage3))"
proof -
  have f: "isPrerendering (prerenderAdjacentPages viewingPage3)" by code_simp
  have h: "\<not> isPrerendering viewingPage3 \<and> pdfDoc viewingPage3 \<and> 1 \<le> currentPage viewingPage3 \<and>
           currentPage viewingPage3 \<le> totalPages viewingPage3"
    by code_simp
  have r: "\<not> rendering viewingPage3" by code_simp
  have t: "prefetchTargets viewingPage3 = [4]" "requests (trace viewingPage3) = []" by code_simp+
  have c: "pageCache (cleanupCache (viewingPage3\<lparr>pageCache :=
              fold (\<lambda>(p, c). AList.update p c) [(4, Rendered 4)] (pageCache viewingPage3)\<rparr>))
           = [(2, Rendered 2), (3, Rendered 3), (4, Rendered 4)]"
    by code_simp
  from prefetch_pass[of "prerenderAdjacentPages viewingPage3" Success Success]
       prefetch_pass[of viewingPage3 Success Success] f h r t c
  show ?thesis by (simp add: Let_def)
qed

subsection \<open>C9: page numbers stay within the document\<close>

text \<open>
  C9: in every state reached from the start of the viewer by loading documents of at
  least one page and by any other events, every page number that was passed to
  \<open>PDFHandler.renderPage\<close> (by a transition, by prefetch or by plain rendering) lay
  within \<open>[1, totalPages]\<close> when the call was made; and with a loaded document
  \<open>currentPage\<close> lies within \<open>[1, totalPages]\<close>, a navigation request changes it by
  exactly one when it is accepted and not at all when it is not, and leaves it within
  these bounds.
\<close>

theorem pages_within_document:
  assumes "list_all valid_event es" and "s = run es (constructor w)"
  shows "list_all request_ok (trace s) \<and>
         (pdfDoc s \<longrightarrow>
            1 \<le> currentPage s \<and> currentPage s \<le> totalPages s \<and>
            currentPage (goToNextPage s)
              = (if currentPage s < totalPages s \<and> \<not> isTransitioning s then currentPage s + 1 else currentPage s) \<and>
            currentPage (goToPreviousPage s)
              = (if 1 < currentPage s \<and> \<not> isTransitioning s then currentPage s - 1 else currentPage s) \<and>
            1 \<le> currentPage (goToNextPage s) \<and> currentPage (goToNextPage s) \<le> totalPages (goToNextPage s) \<and>
            1 \<le> currentPage (goToPreviousPage s) \<and> currentPage (goToPreviousPage s) \<le> totalPages (goToPreviousPage s))"
proof -
  have i: "inv s" using assms reachable_inv by simp
  have n: "inv (step Next s)" and p: "inv (step Prev s)"
    using i by (simp_all add: inv_step del: step.simps)
  have doc: "pdfDoc (goToNextPage s) = pdfDoc s" "pdfDoc (goToPreviousPage s) = pdfDoc s"
    by (simp_all add: pdfDoc_rpwt goToNextPage_def goToPreviousPage_def)
  have cn: "currentPage (goToNextPage s)
              = (if currentPage s < totalPages s \<and> \<not> isTransitioning s then currentPage s + 1 else currentPage s)"
    by (simp add: goToNextPage_def currentPage_rpwt)
  have cp: "currentPage (goToPreviousPage s)
              = (if 1 < currentPage s \<and> \<not> isTransitioning s then currentPage s - 1 else currentPage s)"
    by (simp add: goToPreviousPage_def currentPage_rpwt)
  show ?thesis
    using i n p doc cn cp
    by (simp add: inv_def inv_pages_def)
qed


text \<open>A document of three pages, its first page shown and its second page prefetched.\<close>

theorem pages_within_document_witness:
  "list_all request_ok (trace (run [Loaded 3, ScaleDone True, RasterDone Success, RasterDone Success]
      (constructor (Some (Some okDriver))))) \<and>
   currentPage (run [Loaded 3, ScaleDone True, RasterDone Success, RasterDone Success]
      (constructor (Some (Some okDriver)))) = 1 \<and>
   currentPage (goToNextPage (run [Loaded 3, ScaleDone True, RasterDone Success, RasterDone Success]
      (constructor (Some (Some okDriver))))) = 2 \<and>
   currentPage (goToPreviousPage (run [Loaded 3, ScaleDone True, RasterDone Success, RasterDone Success]
      (constructor (Some (Some okDriver))))) = 1"
proof -
  let ?es = "[Loaded 3, ScaleDone True, RasterDone Success, RasterDone Success]"
  let ?s = "run ?es (constructor (Some (Some okDriver)))"
  have v: "list_all valid_event ?es" by simp
  have d: "pdfDoc ?s" by code_simp
  have c: "currentPage ?s = 1" "totalPages ?s = 3" "\<not> isTransitioning ?s" by code_simp+
  from pages_within_document[OF v refl, of "Some (Some okDriver)"] d c
  show ?thesis by simp
qed

subsection \<open>C10: the transition flag is reset\<close>

text \<open>
  C10: in every reachable state \<open>isTransitioning\<close> is set exactly while an invocation
  of \<open>renderPageWithTransition\<close> is suspended at one of its two \<open>await\<close>s, so an
  invocation that has ended, normally or through its \<open>catch\<close> branch, has reset it;
  and a suspended invocation ends with the flag reset once what it awaits completes,
  whatever the outcome of the rasterization.
\<close>

theorem transition_flag_reset:
  assumes "list_all valid_event es" and "s = run es (constructor w)"
  shows "(isTransitioning s = transitionPending s) \<and>
         (animation s \<noteq> None \<longrightarrow> \<not> isTransitioning (step AnimDone s)) \<and>
         (awaitedBy isTransitionNew s \<longrightarrow>
            \<not> isTransitioning (run [RasterDone out, AnimDone] s))"
proof -
  have i: "inv s" using assms reachable_inv by simp
  have a: "inv (step AnimDone s)" using i by (simp add: inv_step del: step.simps)
  have r: "inv (run [RasterDone out, AnimDone] s)" using i by (simp add: inv_run del: run.simps)
  have 1: "isTransitioning s = transitionPending s" using i by (simp add: inv_def inv_flag_def)
  have 2: "\<not> isTransitioning (step AnimDone s)" if "animation s \<noteq> None"
  proof -
    from that i have "\<not> awaitedBy isTransitionNew s" by (simp add: inv_def inv_flag_def)
    with that show ?thesis
      by (auto simp: anim_done_def transition_commit_def)
  qed
  have 3: "\<not> isTransitioning (run [RasterDone out, AnimDone] s)" if "awaitedBy isTransitionNew s"
  proof -
    from that obtain p old where rs: "raster s = Some (p, TransitionNew old)"
      by (auto simp: awaitedBy_def split: option.splits awaiter.splits elim: isTransitionNew.elims)
    from that i have an: "animation s = None" by (cases "animation s") (auto simp: inv_def inv_flag_def)
    let ?t = "raster_done out s"
    have t: "?t = transition_run old (rasterResult out p Blank) (s\<lparr>raster := None\<rparr>)"
      using rs by (simp add: raster_done_def)
    have "\<not> awaitedBy isTransitionNew ?t"
      by (simp add: t transition_run_def transition_commit_def transition_catch_def renderPage_def
            emit_def split: option.splits sum.splits)
    moreover have "animation ?t = None \<Longrightarrow> \<not> isTransitioning ?t"
      using an
      by (simp add: t transition_run_def transition_commit_def transition_catch_def renderPage_def
            emit_def split: option.splits sum.splits)
    ultimately show ?thesis
      by (cases "animation ?t") (auto simp: anim_done_def transition_commit_def)
  qed
  from 1 2 3 show ?thesis by blast
qed

text \<open>
  A page change requested right after loading: it is suspended at the raster of page
  2, and ends with the flag reset whether the raster fails in \<open>page.render\<close> or in
  \<open>getPage\<close>; and on an engine without a context, where \<open>resize\<close> throws once the
  raster is there and the \<open>catch\<close> branch is entered.
\<close>

theorem transition_flag_reset_witness:
  "isTransitioning (run [Loaded 3, Next] (constructor (Some (Some okDriver)))) \<and>
   transitionPending (run [Loaded 3, Next] (constructor (Some (Some okDriver)))) \<and>
   \<not> isTransitioning (run [RasterDone RenderError, AnimDone] (run [Loaded 3, Next] (constructor (Some (Some okDriver))))) \<and>
   animation (step (RasterDone GetPageError) (run [Loaded 3, Next] (constructor (Some (Some okDriver))))) \<noteq> None \<and>
   \<not> isTransitioning (step AnimDone
       (step (RasterDone GetPageError) (run [Loaded 3, Next] (constructor (Some (Some okDriver)))))) \<and>
   isTransitioning (run [Loaded 3, Next] (constructor (Some None))) \<and>
   \<not> isTransitioning (run [RasterDone Success, AnimDone] (run [Loaded 3, Next] (constructor (Some None)))) \<and>
   transitions (trace (run [RasterDone Success, AnimDone] (run [Loaded 3, Next] (constructor (Some None)))))
     = [TransitionError]"
proof -
  let ?c = "constructor (Some (Some okDriver))"
  let ?s = "run [Loaded 3, Next] ?c"
  let ?t = "run [Loaded 3, Next, RasterDone GetPageError] ?c"
  let ?n = "run [Loaded 3, Next] (constructor (Some None))"
  have t: "step (RasterDone GetPageError) ?s = ?t" by simp
  have v: "list_all valid_event [Loaded 3, Next]" "list_all valid_event [Loaded 3, Next, RasterDone GetPageError]"
    by simp_all
  have f: "isTransitioning ?s" "awaitedBy isTransitionNew ?s" "animation ?t \<noteq> None" by code_simp+
  have g: "isTransitioning ?n" "awaitedBy isTransitionNew ?n"
    "transitions (trace (run [RasterDone Success, AnimDone] ?n)) = [TransitionError]"
    by code_simp+
  from transition_flag_reset[OF v(1) refl, of "Some (Some okDriver)" RenderError]
       transition_flag_reset[OF v(2) refl, of "Some (Some okDriver)" Success]
       transition_flag_reset[OF v(1) refl, of "Some None" Success] f g
  show ?thesis unfolding t by blast
qed

end
